theory Spec2Isabelle
  imports Complex_Main "HOL-Library.AList"
begin

section \<open>Shared data model\<close>

text \<open>
  Python floats are modelled as mathematical reals: the properties below are about the
  comparisons and the control flow around the arithmetic, not about rounding.  Where the
  source can produce a value that is no number (pandas' NaN for an undefined rolling
  statistic) the model uses \<open>real option\<close>, \<open>None\<close> standing for NaN.

  An instrument is the string key of a currency pair (\<open>''USD/JPY''\<close>).  A snapshot
  (\<open>market_data\<close>, \<open>latest_data\<close>) is the dictionary
  \<open>{pair: {'rate': ..., 'timestamp': ...}}\<close> that \<open>RealtimeDataManager\<close> publishes.
\<close>

type_synonym pair = string

record quote =
  rate :: real
  timestamp :: nat

type_synonym market_data = "pair \<rightharpoonup> quote"

datatype py_error = KeyError | ValueError | ZeroDivisionError | AttributeError

datatype action = Buy | Sell

text \<open>
  A strategy's decision is the dictionary \<open>{'should_trade': False}\<close> or
  \<open>{'should_trade': True, 'action', 'currency', 'amount', 'price', 'reason'}\<close>.
  The \<open>reason\<close> entry is a log message formatted from the same numbers; its text is not
  modelled.  The fields of \<open>Trade\<close> are action, currency, amount and price.
\<close>

datatype decision = NoTrade | Trade action pair real real

fun should_trade :: "decision \<Rightarrow> bool" where
  "should_trade NoTrade = False"
| "should_trade (Trade a c m p) = True"

section \<open>strategies/single\_currency/simple\_strategy.py\<close>

record simple_strategy =
  currency_pair :: pair
  threshold_percent :: real
  trade_amount :: real
  previous_rate :: "real option"

text \<open>The constructor: no previous rate is recorded.\<close>

definition SimpleStrategy :: "pair \<Rightarrow> real \<Rightarrow> real \<Rightarrow> simple_strategy" where
  "SimpleStrategy cp thr amt =
     \<lparr>currency_pair = cp, threshold_percent = thr, trade_amount = amt, previous_rate = None\<rparr>"

text \<open>
  \<open>percent_change\<close> is line 56.  Both operands are Python floats, so a previous rate of
  zero raises \<open>ZeroDivisionError\<close>, which leaves \<open>simple_make_decision\<close> before the stored rate
  is updated.
\<close>

definition percent_change :: "real \<Rightarrow> real \<Rightarrow> real" where
  "percent_change current_rate prev = ((current_rate - prev) / prev) * 100"

definition simple_make_decision :: "simple_strategy \<Rightarrow> market_data \<Rightarrow> py_error + (decision \<times> simple_strategy)" where
  "simple_make_decision s md =
     (case md (currency_pair s) of
        None \<Rightarrow> Inr (NoTrade, s)
      | Some q \<Rightarrow>
          (let current_rate = rate q in
           case previous_rate s of
             None \<Rightarrow> Inr (NoTrade, s\<lparr>previous_rate := Some current_rate\<rparr>)
           | Some prev \<Rightarrow>
               if prev = 0 then Inl ZeroDivisionError
               else
                 (let pc = percent_change current_rate prev;
                      d = (if pc \<le> - threshold_percent s
                           then Trade Buy (currency_pair s) (trade_amount s) current_rate
                           else if pc \<ge> threshold_percent s
                           then Trade Sell (currency_pair s) (trade_amount s) current_rate
                           else NoTrade)
                  in Inr (d, s\<lparr>previous_rate := Some current_rate\<rparr>))))"

text \<open>
  Feeding a sequence of snapshots to one strategy object, as \<open>TradingBot\<close> does cycle
  after cycle: the decisions in order and the final state.  An exception ends the run.
\<close>

fun feed :: "simple_strategy \<Rightarrow> market_data list \<Rightarrow> py_error + (decision list \<times> simple_strategy)" where
  "feed s [] = Inr ([], s)"
| "feed s (md # mds) =
     (case simple_make_decision s md of
        Inl e \<Rightarrow> Inl e
      | Inr (d, s') \<Rightarrow>
          (case feed s' mds of
             Inl e \<Rightarrow> Inl e
           | Inr (ds, s'') \<Rightarrow> Inr (d # ds, s'')))"

section \<open>core/engine/api\_connector.py\<close>

text \<open>
  The remote service is the environment.  What one HTTP exchange of
  \<open>get_exchange_rate\<close> can come back with: the request raises a
  \<open>RequestException\<close> (connection error, or \<open>raise_for_status\<close> on an error status);
  the JSON object has no \<open>'rate'\<close>; it has a \<open>'rate'\<close> that \<open>float()\<close> accepts; or it
  has a \<open>'rate'\<close> that \<open>float()\<close> rejects, which raises \<open>ValueError\<close>.  The method
  catches \<open>RequestException\<close> only.
\<close>

datatype rate_response =
    Rate_RequestException
  | Rate_missing
  | Rate_value real
  | Rate_not_a_float

type_synonym rate_service = "string \<Rightarrow> string \<Rightarrow> rate_response"

definition get_exchange_rate :: "rate_service \<Rightarrow> string \<Rightarrow> string \<Rightarrow> py_error + real option" where
  "get_exchange_rate http from_currency to_currency =
     (case http from_currency to_currency of
        Rate_value r \<Rightarrow> Inr (Some r)
      | Rate_not_a_float \<Rightarrow> Inl ValueError
      | Rate_missing \<Rightarrow> Inr None
      | Rate_RequestException \<Rightarrow> Inr None)"

text \<open>
  A calendar date is its day number.  A price point is a \<open>{date, rate}\<close> record, and a
  series is the rows of a data frame in their order: the index (date) and the
  \<open>rate\<close> column.

  What one exchange of \<open>get_historical_rates\<close> can come back with: a
  \<open>RequestException\<close>; a JSON object with a \<open>'rates'\<close> list; a JSON object without
  one (\<open>data.get('rates', [])\<close> is then the empty list); or JSON that is not an object,
  on which \<open>data.get\<close> raises \<open>AttributeError\<close>.
\<close>

type_synonym date = int

type_synonym price_point = "date \<times> real"

type_synonym series = "price_point list"

datatype history_response =
    History_RequestException
  | History_rates series
  | History_without_rates
  | History_not_an_object

type_synonym history_service = "pair \<Rightarrow> date \<Rightarrow> date \<Rightarrow> history_response"

definition get_historical_rates :: "history_service \<Rightarrow> pair \<Rightarrow> date \<Rightarrow> date \<Rightarrow> py_error + series" where
  "get_historical_rates svc cp start_date end_date =
     (case svc cp start_date end_date of
        History_rates rs \<Rightarrow> Inr rs
      | History_without_rates \<Rightarrow> Inr []
      | History_not_an_object \<Rightarrow> Inl AttributeError
      | History_RequestException \<Rightarrow> Inr [])"

section \<open>core/database/realtime\_data.py\<close>

text \<open>
  \<open>pair.split('/')\<close>: one more part than there are slashes.  The tuple assignment
  \<open>from_currency, to_currency = pair.split('/')\<close> raises \<open>ValueError\<close> unless there are
  exactly two parts.
\<close>

fun split_slash :: "string \<Rightarrow> string list" where
  "split_slash [] = [[]]"
| "split_slash (c # cs) =
     (if c = CHR ''/'' then [] # split_slash cs
      else (case split_slash cs of
              [] \<Rightarrow> [[c]]
            | part # parts \<Rightarrow> (c # part) # parts))"

definition unpack_pair :: "pair \<Rightarrow> py_error + (string \<times> string)" where
  "unpack_pair p =
     (case split_slash p of
        [from_currency, to_currency] \<Rightarrow> Inr (from_currency, to_currency)
      | _ \<Rightarrow> Inl ValueError)"

text \<open>
  One record of the per-day journal file, and the state of a \<open>RealtimeDataManager\<close>.
  The journal files \<open>data/realtime_YYYYMMDD.json\<close> are kept in the state, one list of
  records per day.
\<close>

record journal_record =
  record_timestamp :: nat
  rates :: market_data

record realtime_data_manager =
  update_interval :: nat
  currency_pairs :: "pair list"
  latest_data :: market_data
  journal :: "nat \<rightharpoonup> journal_record list"

text \<open>
  What one poll tick meets: the remote service, the clock (\<open>clock\<close> for the timestamps,
  \<open>day\<close> for the journal's file name), whether an exception occurs inside the
  \<open>try\<close> block of \<open>_save_data_to_file\<close> (the file cannot be read, parsed or opened
  for writing, and is left as it was), and whether \<open>stop_flag\<close> is set when the loop tests it.
\<close>

record tick =
  http :: rate_service
  clock :: nat
  day :: nat
  journal_write_fails :: bool
  stop_flag_is_set :: bool

text \<open>
  The state after \<open>__init__\<close>'s assignments, before its first \<open>_update_data\<close>.
\<close>

definition RealtimeDataManager :: "nat \<Rightarrow> realtime_data_manager" where
  "RealtimeDataManager interval =
     \<lparr>update_interval = interval,
      currency_pairs = [''EUR/USD'', ''USD/JPY'', ''GBP/USD'', ''USD/CHF'', ''USD/CAD''],
      latest_data = Map.empty,
      journal = Map.empty\<rparr>"

text \<open>The \<open>for pair in self.currency_pairs\<close> loop of \<open>_update_data\<close> (lines 81 to 92).\<close>

fun fetch_pairs :: "rate_service \<Rightarrow> nat \<Rightarrow> pair list \<Rightarrow> market_data \<Rightarrow> py_error + market_data" where
  "fetch_pairs h ts [] updated_data = Inr updated_data"
| "fetch_pairs h ts (p # ps) updated_data =
     (case unpack_pair p of
        Inl e \<Rightarrow> Inl e
      | Inr (from_currency, to_currency) \<Rightarrow>
          (case get_exchange_rate h from_currency to_currency of
             Inl e \<Rightarrow> Inl e
           | Inr None \<Rightarrow> fetch_pairs h ts ps updated_data
           | Inr (Some r) \<Rightarrow>
               fetch_pairs h ts ps (updated_data(p \<mapsto> \<lparr>rate = r, timestamp = ts\<rparr>))))"

text \<open>\<open>_save_data_to_file\<close> catches every exception of its body and logs it.\<close>

definition save_data_to_file :: "realtime_data_manager \<Rightarrow> tick \<Rightarrow> market_data \<Rightarrow> realtime_data_manager" where
  "save_data_to_file m t data =
     (if journal_write_fails t then m
      else
        (let existing_data = (case journal m (day t) of None \<Rightarrow> [] | Some rs \<Rightarrow> rs);
             rec = \<lparr>record_timestamp = clock t, rates = data\<rparr>
         in m\<lparr>journal := (journal m)(day t \<mapsto> existing_data @ [rec])\<rparr>))"

text \<open>
  \<open>_update_data\<close>: an exception of the fetch loop leaves the method before
  \<open>self.latest_data\<close> is assigned.
\<close>

definition update_data :: "realtime_data_manager \<Rightarrow> tick \<Rightarrow> py_error + realtime_data_manager" where
  "update_data m t =
     (case fetch_pairs (http t) (clock t) (currency_pairs m) Map.empty of
        Inl e \<Rightarrow> Inl e
      | Inr updated_data \<Rightarrow> Inr (save_data_to_file (m\<lparr>latest_data := updated_data\<rparr>) t updated_data))"

text \<open>
  The body of the \<open>while\<close> loop of \<open>_update_loop\<close>: the new state and the number of
  seconds the thread sleeps before the next test of the stop flag.
\<close>

definition update_loop_body :: "realtime_data_manager \<Rightarrow> tick \<Rightarrow> realtime_data_manager \<times> nat" where
  "update_loop_body m t =
     (case update_data m t of
        Inr m' \<Rightarrow> (m', update_interval m')
      | Inl e \<Rightarrow> (m, 5))"

text \<open>
  \<open>_update_loop\<close> over the poll ticks that are observed: it ends when the stop flag is
  set (or when the observation ends), and returns the final state and the sleeps of the
  iterations it ran.
\<close>

fun update_loop :: "realtime_data_manager \<Rightarrow> tick list \<Rightarrow> realtime_data_manager \<times> nat list" where
  "update_loop m [] = (m, [])"
| "update_loop m (t # ts) =
     (if stop_flag_is_set t then (m, [])
      else
        (case update_loop_body m t of
           (m', pause) \<Rightarrow>
             (case update_loop m' ts of
                (m'', pauses) \<Rightarrow> (m'', pause # pauses))))"

section \<open>core/database/historical\_data.py\<close>

text \<open>
  The files of the data directory, by file name.  \<open>_load_local_data\<close> gives the empty
  frame when the file is missing, and also when reading it raises (a file holding the
  empty list is such a case: the frame has no \<open>date\<close> column).
\<close>

type_synonym file_store = "string \<rightharpoonup> series"

definition file_path :: "pair \<Rightarrow> string" where
  "file_path cp = map (\<lambda>c. if c = CHR ''/'' then CHR ''_'' else c) cp @ ''.json''"

definition load_local_data :: "file_store \<Rightarrow> pair \<Rightarrow> series" where
  "load_local_data files cp = (case files (file_path cp) of None \<Rightarrow> [] | Some rows \<Rightarrow> rows)"

definition dates :: "series \<Rightarrow> date list" where
  "dates rows = map fst rows"

definition need_update :: "series \<Rightarrow> date \<Rightarrow> bool" where
  "need_update local_data today =
     (if local_data = [] then True
      else Max (set (dates local_data)) < today - 1)"

text \<open>
  \<open>combined_data[~combined_data.index.duplicated(keep='last')]\<close>: a row stays unless its
  date occurs again further down; the rows that stay keep their order.
\<close>

fun drop_duplicated_keep_last :: "series \<Rightarrow> series" where
  "drop_duplicated_keep_last [] = []"
| "drop_duplicated_keep_last (row # rows) =
     (if fst row \<in> set (dates rows) then drop_duplicated_keep_last rows
      else row # drop_duplicated_keep_last rows)"

text \<open>Lines 105 to 113: the date range that is requested.\<close>

definition request_range :: "series \<Rightarrow> date \<Rightarrow> date \<times> date" where
  "request_range local_data today =
     (if local_data = [] then (today - 5 * 365, today)
      else (Max (set (dates local_data)) + 1, today))"

text \<open>Lines 128 to 133: the merge of the cached rows and the new rows.\<close>

definition combine :: "series \<Rightarrow> series \<Rightarrow> series" where
  "combine local_data new_df =
     (if local_data \<noteq> [] then drop_duplicated_keep_last (local_data @ new_df)
      else new_df)"

text \<open>\<open>_save_data\<close> rewrites the whole file of the pair.\<close>

definition save_data :: "file_store \<Rightarrow> pair \<Rightarrow> series \<Rightarrow> file_store" where
  "save_data files cp data = files(file_path cp \<mapsto> data)"

text \<open>
  \<open>update_historical_data\<close>: every exception of its body is caught and logged, and
  the method returns nothing, so the result is the files afterwards.
\<close>

definition update_historical_data :: "history_service \<Rightarrow> date \<Rightarrow> file_store \<Rightarrow> pair \<Rightarrow> file_store" where
  "update_historical_data svc today files cp =
     (let local_data = load_local_data files cp;
          (start_date, end_date) = request_range local_data today
      in case get_historical_rates svc cp start_date end_date of
           Inl e \<Rightarrow> files
         | Inr new_data \<Rightarrow>
             if new_data = [] then files
             else save_data files cp (combine local_data new_data))"

text \<open>The two date filters of \<open>load_historical_data\<close> (lines 58 to 61).\<close>

definition filter_range :: "date option \<Rightarrow> date option \<Rightarrow> series \<Rightarrow> series" where
  "filter_range start_date end_date local_data =
     (let from_start = (case start_date of
                          None \<Rightarrow> local_data
                        | Some s \<Rightarrow> filter (\<lambda>row. fst row \<ge> s) local_data)
      in case end_date of
           None \<Rightarrow> from_start
         | Some e \<Rightarrow> filter (\<lambda>row. fst row \<le> e) from_start)"

definition load_historical_data ::
  "history_service \<Rightarrow> date \<Rightarrow> file_store \<Rightarrow> pair \<Rightarrow> date option \<Rightarrow> date option \<Rightarrow> series \<times> file_store" where
  "load_historical_data svc today files cp start_date end_date =
     (let local_data = load_local_data files cp
      in if local_data = [] \<or> need_update local_data today
         then (let files' = update_historical_data svc today files cp
               in (filter_range start_date end_date (load_local_data files' cp), files'))
         else (filter_range start_date end_date local_data, files))"

text \<open>
  The behaviour section 4.1 of the specification words for \<open>load\<close>, for comparison
  with the code: a failure \<open>DataUnavailable\<close> when nothing is cached and the refresh
  brings nothing, and the cached series, filtered, otherwise.
\<close>

datatype load_outcome = DataUnavailable | Loaded series

definition load_as_specified ::
  "history_service \<Rightarrow> date \<Rightarrow> file_store \<Rightarrow> pair \<Rightarrow> date option \<Rightarrow> date option \<Rightarrow> load_outcome" where
  "load_as_specified svc today files cp start_date end_date =
     (if load_local_data files cp = [] \<and>
         load_local_data (update_historical_data svc today files cp) cp = []
      then DataUnavailable
      else Loaded (fst (load_historical_data svc today files cp start_date end_date)))"

text \<open>
  \<open>get_correlation\<close>.  Both frames are loaded and restricted to the dates they
  share:
  \<^item> \<open>data1.index.intersection(data2.index)\<close> is the dates of the first frame that
    the second frame has too, each once, in the order of their first rows;
  \<^item> \<open>data.loc[common_dates]\<close> is, date after date, every row the frame has for that
    date, so a date that the frame holds twice gives two rows;
  \<^item> the rolling correlation first brings both columns to one index
    (\<open>X = arg1 + 0 * arg2\<close>, \<open>Y = arg2 + 0 * arg1\<close>).  When the two restricted
    frames have the same index the rows are paired as they stand.  Otherwise each sum is
    an outer join on the dates, in ascending order of the dates, and a date with \<open>m\<close>
    rows in one frame and \<open>n\<close> in the other gives \<open>m * n\<close> rows, those of the left
    operand of the sum repeated in blocks: \<open>X\<close> has each rate of the first frame
    \<open>n\<close> times in a row, \<open>Y\<close> each rate of the second frame \<open>m\<close> times in a row.
  For frames whose dates are unique this pairs each shared date's two rates, in the
  order of the first frame.
\<close>

definition rates_at :: "series \<Rightarrow> date \<Rightarrow> real list" where
  "rates_at data d = map snd (filter (\<lambda>row. fst row = d) data)"

definition common_dates :: "series \<Rightarrow> series \<Rightarrow> date list" where
  "common_dates data1 data2 =
     rev (remdups (rev (filter (\<lambda>d. d \<in> set (dates data2)) (dates data1))))"

definition restricted_index :: "series \<Rightarrow> date list \<Rightarrow> date list" where
  "restricted_index data ds = concat (map (\<lambda>d. replicate (length (rates_at data d)) d) ds)"

definition aligned_rates :: "series \<Rightarrow> series \<Rightarrow> (real \<times> real) list" where
  "aligned_rates data1 data2 =
     (let ds = common_dates data1 data2
      in if restricted_index data1 ds = restricted_index data2 ds
         then zip (concat (map (rates_at data1) ds)) (concat (map (rates_at data2) ds))
         else concat (map (\<lambda>d. zip (concat (map (replicate (length (rates_at data2 d))) (rates_at data1 d)))
                                     (concat (map (replicate (length (rates_at data1 d))) (rates_at data2 d))))
                          (sort ds)))"

text \<open>
  A rolling window of size \<open>window\<close> has \<open>min_periods = window\<close>: the value at a
  position with fewer rows behind it is NaN.  The correlation of a window is
  \<open>cov / sqrt (var_x * var_y)\<close>, NaN when the window has fewer than two rows or a
  variance is zero.
\<close>

definition mean :: "real list \<Rightarrow> real" where
  "mean xs = sum_list xs / real (length xs)"

definition pearson :: "(real \<times> real) list \<Rightarrow> real option" where
  "pearson rows =
     (let xs = map fst rows; ys = map snd rows;
          cov = sum_list (map (\<lambda>(x, y). (x - mean xs) * (y - mean ys)) rows);
          var_x = sum_list (map (\<lambda>x. (x - mean xs) ^ 2) xs);
          var_y = sum_list (map (\<lambda>y. (y - mean ys) ^ 2) ys)
      in if length rows < 2 \<or> var_x * var_y = 0 then None
         else Some (cov / sqrt (var_x * var_y)))"

definition rolling_corr :: "nat \<Rightarrow> (real \<times> real) list \<Rightarrow> real option list" where
  "rolling_corr window rows =
     map (\<lambda>i. if i + 1 < window then None
               else pearson (take window (drop (i + 1 - window) rows)))
         [0 ..< length rows]"

definition get_correlation ::
  "history_service \<Rightarrow> date \<Rightarrow> file_store \<Rightarrow> pair \<Rightarrow> pair \<Rightarrow> nat \<Rightarrow> date option \<Rightarrow> date option
     \<Rightarrow> real option list \<times> file_store" where
  "get_correlation svc today files cp1 cp2 window start_date end_date =
     (case load_historical_data svc today files cp1 start_date end_date of
        (data1, files1) \<Rightarrow>
          (case load_historical_data svc today files1 cp2 start_date end_date of
             (data2, files2) \<Rightarrow>
               (rolling_corr window (aligned_rates data1 data2), files2)))"

section \<open>strategies/multi\_currency/correlation\_strategy.py\<close>

text \<open>
  One entry of \<open>divergence_data\<close>.  The correlation and the divergence can be NaN
  (\<open>None\<close>): \<open>np.sign\<close> of NaN is NaN, and so is every product and difference
  with it.
\<close>

record divergence_entry =
  correlation :: "real option"
  primary_change :: real
  secondary_change :: real
  divergence :: "real option"

type_synonym divergence_data = "(pair \<times> divergence_entry) list"

record correlation_strategy =
  primary_pair :: pair
  secondary_pairs :: "pair list"
  correlation_window :: nat
  divergence_threshold :: real
  strategy_trade_amount :: real
  historical_correlations :: "pair \<rightharpoonup> real option"

definition CorrelationStrategy :: "pair \<Rightarrow> pair list \<Rightarrow> nat \<Rightarrow> real \<Rightarrow> real \<Rightarrow> correlation_strategy" where
  "CorrelationStrategy primary secondaries window threshold amt =
     \<lparr>primary_pair = primary, secondary_pairs = secondaries, correlation_window = window,
      divergence_threshold = threshold, strategy_trade_amount = amt,
      historical_correlations = Map.empty\<rparr>"

text \<open>
  Line 157: the latest value of the correlation series, and 0 when the series is empty.
\<close>

definition latest_value :: "real option list \<Rightarrow> real option" where
  "latest_value correlation_series =
     (if correlation_series \<noteq> [] then last correlation_series else Some 0)"

text \<open>
  Lines 167 and 168: the rate of the row before the last one, or of the only row.  The
  frame is not empty where this is used.
\<close>

definition prev_close :: "series \<Rightarrow> real" where
  "prev_close data =
     (if length data > 1 then snd (data ! (length data - 2)) else snd (last data))"

definition relative_change :: "real \<Rightarrow> real \<Rightarrow> real" where
  "relative_change current prev = (current - prev) / prev"

text \<open>Line 177, with \<open>np.sign\<close> as \<open>sgn\<close> (\<open>sgn 0 = 0\<close>) and NaN carried through.\<close>

definition divergence_of :: "real \<Rightarrow> real \<Rightarrow> real option \<Rightarrow> real option" where
  "divergence_of p_change s_change latest_correlation =
     (case latest_correlation of
        None \<Rightarrow> None
      | Some c \<Rightarrow> Some (p_change - s_change * sgn c))"

text \<open>
  The body of the loop over the secondary pairs (lines 141 to 186), on the accumulated
  \<open>divergence_data\<close>, the strategy and the files.  The history manager may refresh
  files on each load.  \<open>divergence_data\<close> is a dictionary in insertion order:
  \<open>AList.update\<close> replaces the value of a key that is present and appends a new key.

  The rates of a frame are numpy floats, and a division by a previous close of zero
  gives inf or nan there, not an exception.  The reals have neither value, so the model
  stops such a run with \<open>Not_finite\<close>, and the properties below speak about the runs
  that do not stop: those in which the closes are not zero.
\<close>

datatype run_error = Raised py_error | Not_finite

definition secondary_divergence ::
  "history_service \<Rightarrow> date \<Rightarrow> market_data \<Rightarrow> series \<Rightarrow> pair
     \<Rightarrow> divergence_data \<times> correlation_strategy \<times> file_store
     \<Rightarrow> run_error + (divergence_data \<times> correlation_strategy \<times> file_store)" where
  "secondary_divergence svc today md primary_data secondary_pair acc =
     (case acc of (data, self, files) \<Rightarrow>
        (let start_date = today - 2 * int (correlation_window self);
             end_date = today
         in case load_historical_data svc today files secondary_pair (Some start_date) (Some end_date) of
              (secondary_data, files1) \<Rightarrow>
                if secondary_data = [] then Inr (data, self, files1)
                else
                  (case get_correlation svc today files1 (primary_pair self) secondary_pair
                          (correlation_window self) (Some start_date) (Some end_date) of
                     (correlation_series, files2) \<Rightarrow>
                       (let latest_correlation = latest_value correlation_series;
                            self' = self\<lparr>historical_correlations :=
                                      (historical_correlations self)(secondary_pair \<mapsto> latest_correlation)\<rparr>
                        in case md (primary_pair self) of
                             None \<Rightarrow> Inl (Raised KeyError)
                           | Some primary_quote \<Rightarrow>
                               (case md secondary_pair of
                                  None \<Rightarrow> Inl (Raised KeyError)
                                | Some secondary_quote \<Rightarrow>
                                    (let primary_prev = prev_close primary_data;
                                         secondary_prev = prev_close secondary_data
                                     in if primary_prev = 0 \<or> secondary_prev = 0 then Inl Not_finite
                                        else
                                          (let p_change = relative_change (rate primary_quote) primary_prev;
                                               s_change = relative_change (rate secondary_quote) secondary_prev;
                                               entry = \<lparr>correlation = latest_correlation,
                                                        primary_change = p_change,
                                                        secondary_change = s_change,
                                                        divergence = divergence_of p_change s_change latest_correlation\<rparr>
                                           in Inr (AList.update secondary_pair entry data, self', files2))))))))"

fun divergence_loop ::
  "history_service \<Rightarrow> date \<Rightarrow> market_data \<Rightarrow> series \<Rightarrow> pair list
     \<Rightarrow> divergence_data \<times> correlation_strategy \<times> file_store
     \<Rightarrow> run_error + (divergence_data \<times> correlation_strategy \<times> file_store)" where
  "divergence_loop svc today md primary_data [] acc = Inr acc"
| "divergence_loop svc today md primary_data (secondary_pair # rest) acc =
     (case secondary_divergence svc today md primary_data secondary_pair acc of
        Inl e \<Rightarrow> Inl e
      | Inr acc' \<Rightarrow> divergence_loop svc today md primary_data rest acc')"

text \<open>\<open>_calculate_divergence\<close>.\<close>

definition calculate_divergence ::
  "history_service \<Rightarrow> date \<Rightarrow> correlation_strategy \<Rightarrow> market_data \<Rightarrow> file_store
     \<Rightarrow> run_error + (divergence_data \<times> correlation_strategy \<times> file_store)" where
  "calculate_divergence svc today self md files =
     (let start_date = today - 2 * int (correlation_window self);
          end_date = today
      in case load_historical_data svc today files (primary_pair self) (Some start_date) (Some end_date) of
           (primary_data, files0) \<Rightarrow>
             if primary_data = [] then Inr ([], self, files0)
             else divergence_loop svc today md primary_data (secondary_pairs self) ([], self, files0))"

text \<open>
  Lines 80 to 86: the search for the largest absolute divergence.  It starts from no
  pair and the value 0, and a later entry replaces the current one only when it is
  strictly larger; a comparison with NaN is false.
\<close>

fun max_divergence :: "divergence_data \<Rightarrow> pair option \<times> real \<Rightarrow> pair option \<times> real" where
  "max_divergence [] best = best"
| "max_divergence ((p, entry) # rest) (max_divergence_pair, max_divergence_value) =
     (case divergence entry of
        None \<Rightarrow> max_divergence rest (max_divergence_pair, max_divergence_value)
      | Some d \<Rightarrow>
          if \<bar>d\<bar> > max_divergence_value then max_divergence rest (Some p, \<bar>d\<bar>)
          else max_divergence rest (max_divergence_pair, max_divergence_value))"

text \<open>\<open>x > 0\<close> for a float that may be NaN.\<close>

definition is_positive :: "real option \<Rightarrow> bool" where
  "is_positive v = (case v of None \<Rightarrow> False | Some x \<Rightarrow> x > 0)"

text \<open>Lines 96 to 99: the direction of the trade.\<close>

definition trade_direction :: "real option \<Rightarrow> real option \<Rightarrow> action" where
  "trade_direction c d =
     (if is_positive c then (if is_positive d then Sell else Buy)
      else (if is_positive d then Buy else Sell))"

text \<open>
  \<open>make_decision\<close> of \<open>CorrelationStrategy\<close>.  \<open>divergence_data[max_divergence_pair]\<close>
  raises \<open>KeyError\<close> when no pair was selected.  An exception ends the call; the model
  does not keep the state an interrupted call leaves behind.
\<close>

definition correlation_make_decision ::
  "history_service \<Rightarrow> date \<Rightarrow> correlation_strategy \<Rightarrow> market_data \<Rightarrow> file_store
     \<Rightarrow> run_error + (decision \<times> correlation_strategy \<times> file_store)" where
  "correlation_make_decision svc today self md files =
     (case md (primary_pair self) of
        None \<Rightarrow> Inr (NoTrade, self, files)
      | Some primary_quote \<Rightarrow>
          if \<not> list_all (\<lambda>p. md p \<noteq> None) (secondary_pairs self) then Inr (NoTrade, self, files)
          else
            (case calculate_divergence svc today self md files of
               Inl e \<Rightarrow> Inl e
             | Inr (data, self', files') \<Rightarrow>
                 if data = [] then Inr (NoTrade, self', files')
                 else
                   (case max_divergence data (None, 0) of
                      (max_divergence_pair, max_divergence_value) \<Rightarrow>
                        if max_divergence_value > divergence_threshold self
                        then
                          (case max_divergence_pair of
                             None \<Rightarrow> Inl (Raised KeyError)
                           | Some p \<Rightarrow>
                               (case map_of data p of
                                  None \<Rightarrow> Inl (Raised KeyError)
                                | Some entry \<Rightarrow>
                                    Inr (Trade (trade_direction (correlation entry) (divergence entry))
                                           (primary_pair self) (strategy_trade_amount self)
                                           (rate primary_quote),
                                         self', files')))
                        else Inr (NoTrade, self', files'))))"

section \<open>core/engine/trading\_bot.py\<close>

text \<open>
  \<open>TradingBot\<close> works with any data manager and any strategy, and reads the decision
  as a dictionary, so here a decision is a dictionary of Python values.
\<close>

datatype pyval = PBool bool | PNum real | PStr string | PNone

type_synonym pydict = "string \<rightharpoonup> pyval"

fun truthy :: "pyval \<Rightarrow> bool" where
  "truthy (PBool b) = b"
| "truthy (PNum x) = (x \<noteq> 0)"
| "truthy (PStr s) = (s \<noteq> [])"
| "truthy PNone = False"

definition getitem :: "pydict \<Rightarrow> string \<Rightarrow> py_error + pyval" where
  "getitem d k = (case d k of None \<Rightarrow> Inl KeyError | Some v \<Rightarrow> Inr v)"

text \<open>The dictionary a strategy of this repository returns for a decision, given the reason's text.\<close>

fun action_name :: "action \<Rightarrow> string" where
  "action_name Buy = ''buy''"
| "action_name Sell = ''sell''"

fun decision_dict :: "string \<Rightarrow> decision \<Rightarrow> pydict" where
  "decision_dict why NoTrade = [''should_trade'' \<mapsto> PBool False]"
| "decision_dict why (Trade a c m p) =
     [''should_trade'' \<mapsto> PBool True, ''action'' \<mapsto> PStr (action_name a),
      ''currency'' \<mapsto> PStr c, ''amount'' \<mapsto> PNum m, ''price'' \<mapsto> PNum p,
      ''reason'' \<mapsto> PStr why]"

record trade_record =
  trade_timestamp :: nat
  trade_action :: pyval
  trade_currency :: pyval
  amount :: pyval
  price :: pyval
  reason :: pyval

record trading_bot =
  trade_mode :: string
  is_running :: bool
  trade_history :: "trade_record list"

definition TradingBot :: "string \<Rightarrow> trading_bot" where
  "TradingBot mode = \<lparr>trade_mode = mode, is_running = False, trade_history = []\<rparr>"

text \<open>
  \<open>_execute_trade\<close> builds the record first (five dictionary reads, each a
  \<open>KeyError\<close> when the key is missing), logs in either mode (the live call to the
  gateway is commented out in the source) and appends the record.
\<close>

definition execute_trade :: "trading_bot \<Rightarrow> nat \<Rightarrow> pydict \<Rightarrow> py_error + trading_bot" where
  "execute_trade self now decision =
     (case getitem decision ''action'' of Inl e \<Rightarrow> Inl e | Inr a \<Rightarrow>
      case getitem decision ''currency'' of Inl e \<Rightarrow> Inl e | Inr c \<Rightarrow>
      case getitem decision ''amount'' of Inl e \<Rightarrow> Inl e | Inr m \<Rightarrow>
      case getitem decision ''price'' of Inl e \<Rightarrow> Inl e | Inr p \<Rightarrow>
      case getitem decision ''reason'' of Inl e \<Rightarrow> Inl e | Inr r \<Rightarrow>
        Inr (self\<lparr>trade_history := trade_history self @
               [\<lparr>trade_timestamp = now, trade_action = a, trade_currency = c,
                 amount = m, price = p, reason = r\<rparr>]\<rparr>))"

text \<open>
  \<open>check_and_execute\<close>.  The data manager's \<open>get_latest_data\<close> and the strategy's
  \<open>make_decision\<close> are given by what they do in this cycle: return a value or raise.
  The result is the returned flag and the bot afterwards.
\<close>

definition check_and_execute ::
  "trading_bot \<Rightarrow> nat \<Rightarrow> (py_error + market_data) \<Rightarrow> (market_data \<Rightarrow> py_error + pydict) \<Rightarrow> bool \<times> trading_bot" where
  "check_and_execute self now get_latest_data make_decision =
     (case get_latest_data of
        Inl e \<Rightarrow> (False, self)
      | Inr current_data \<Rightarrow>
          (case make_decision current_data of
             Inl e \<Rightarrow> (False, self)
           | Inr decision \<Rightarrow>
               (case getitem decision ''should_trade'' of
                  Inl e \<Rightarrow> (False, self)
                | Inr flag \<Rightarrow>
                    if truthy flag
                    then (case execute_trade self now decision of
                            Inl e \<Rightarrow> (False, self)
                          | Inr self' \<Rightarrow> (True, self'))
                    else (True, self))))"

section \<open>Example inputs\<close>

text \<open>
  Two remote services for the examples below: one answers for EUR/USD only and fails
  every other request with a \<open>RequestException\<close>; the other also sends a rate for
  USD/JPY that \<open>float()\<close> rejects.
\<close>

definition eur_only :: rate_service where
  "eur_only f t = (if f = ''EUR'' \<and> t = ''USD'' then Rate_value 1.25 else Rate_RequestException)"

definition jpy_garbled :: rate_service where
  "jpy_garbled f t =
     (if f = ''EUR'' \<and> t = ''USD'' then Rate_value 1.25
      else if f = ''USD'' \<and> t = ''JPY'' then Rate_not_a_float
      else Rate_RequestException)"

definition example_tick :: "rate_service \<Rightarrow> bool \<Rightarrow> tick" where
  "example_tick h jf = \<lparr>http = h, clock = 7, day = 1, journal_write_fails = jf, stop_flag_is_set = False\<rparr>"

text \<open>
  Two history services: one sends the rows for days 1 and 2 whatever range is asked
  for, the other fails every request with a \<open>RequestException\<close>.
\<close>

definition overlapping_batch :: history_service where
  "overlapping_batch cp start_date end_date = History_rates [(1, 11), (2, 20)]"

definition no_history :: history_service where
  "no_history cp start_date end_date = History_RequestException"

text \<open>
  The files of two pairs, a snapshot of their two rates, and a strategy on EUR/USD with
  GBP/USD as its only secondary pair.
\<close>

definition pair_files :: "series \<Rightarrow> series \<Rightarrow> file_store" where
  "pair_files eur gbp = [''EUR_USD.json'' \<mapsto> eur, ''GBP_USD.json'' \<mapsto> gbp]"

definition eur_gbp_snapshot :: "real \<Rightarrow> real \<Rightarrow> market_data" where
  "eur_gbp_snapshot e g =
     [''EUR/USD'' \<mapsto> \<lparr>rate = e, timestamp = 0\<rparr>, ''GBP/USD'' \<mapsto> \<lparr>rate = g, timestamp = 0\<rparr>]"

definition example_strategy :: "nat \<Rightarrow> real \<Rightarrow> correlation_strategy" where
  "example_strategy window threshold = CorrelationStrategy ''EUR/USD'' [''GBP/USD''] window threshold 1000"

section \<open>Properties of SimpleStrategy\<close>

lemma feed_absent:
  "\<forall>md \<in> set mds. md (currency_pair s) = None \<Longrightarrow>
   feed s mds = Inr (replicate (length mds) NoTrade, s)"
  by (induction mds) (simp_all add: simple_make_decision_def)

lemma feed_append:
  "feed s xs = Inr (ds, s') \<Longrightarrow> feed s (xs @ ys) =
     (case feed s' ys of Inl e \<Rightarrow> Inl e | Inr (ds', s'') \<Rightarrow> Inr (ds @ ds', s''))"
  by (induction xs arbitrary: s ds) (auto split: sum.splits prod.splits)

text \<open>
  Claim C3, as the code has it.  With a previous rate \<open>prev \<noteq> 0\<close> recorded and the
  instrument in the snapshot at rate \<open>cur\<close>, \<open>make_decision\<close> returns a trade if and only
  if \<open>\<bar>pctChange\<bar> \<ge> threshold_percent\<close>; the trade is a buy at \<open>cur\<close> when
  \<open>pctChange \<le> - threshold_percent\<close>, and a sell at \<open>cur\<close> when
  \<open>pctChange \<ge> threshold_percent\<close> and the buy test, which comes first, has failed.
  The stored previous rate becomes \<open>cur\<close> in every case.
\<close>

theorem simple_threshold_rule:
  assumes "previous_rate s = Some prev" and "prev \<noteq> 0"
    and "md (currency_pair s) = Some q"
  shows "\<exists>d. simple_make_decision s md = Inr (d, s\<lparr>previous_rate := Some (rate q)\<rparr>) \<and>
     (should_trade d \<longleftrightarrow> \<bar>percent_change (rate q) prev\<bar> \<ge> threshold_percent s) \<and>
     (percent_change (rate q) prev \<le> - threshold_percent s \<longrightarrow>
        d = Trade Buy (currency_pair s) (trade_amount s) (rate q)) \<and>
     (percent_change (rate q) prev \<ge> threshold_percent s \<and>
      \<not> percent_change (rate q) prev \<le> - threshold_percent s \<longrightarrow>
        d = Trade Sell (currency_pair s) (trade_amount s) (rate q))"
  using assms by (auto simp: simple_make_decision_def Let_def)

text \<open>The scenario of the test suite: 150.0 to 145.5 at a threshold of 2 percent is a buy at 145.5.\<close>

theorem simple_threshold_rule_witness:
  "previous_rate ((SimpleStrategy ''USD/JPY'' 2 1000)\<lparr>previous_rate := Some 150\<rparr>) = Some 150
   \<and> (150::real) \<noteq> 0
   \<and> [''USD/JPY'' \<mapsto> \<lparr>rate = 145.5, timestamp = 1\<rparr>] ''USD/JPY'' = Some \<lparr>rate = 145.5, timestamp = 1\<rparr>
   \<and> simple_make_decision ((SimpleStrategy ''USD/JPY'' 2 1000)\<lparr>previous_rate := Some 150\<rparr>)
        [''USD/JPY'' \<mapsto> \<lparr>rate = 145.5, timestamp = 1\<rparr>]
      = Inr (Trade Buy ''USD/JPY'' 1000 145.5,
             (SimpleStrategy ''USD/JPY'' 2 1000)\<lparr>previous_rate := Some 145.5\<rparr>)"
  using simple_threshold_rule
    [of "(SimpleStrategy ''USD/JPY'' 2 1000)\<lparr>previous_rate := Some 150\<rparr>" 150
        "[''USD/JPY'' \<mapsto> \<lparr>rate = 145.5, timestamp = 1\<rparr>]" "\<lparr>rate = 145.5, timestamp = 1\<rparr>"]
  by (auto simp: SimpleStrategy_def percent_change_def)

text \<open>
  C3 as it is written also asks for a sell whenever \<open>pctChange \<ge> threshold_percent\<close>.
  At a threshold of 0 and an unchanged rate both tests hold (\<open>pctChange = 0\<close>), and the
  code, which tests the drop first, buys.
\<close>

theorem simple_sell_at_zero_threshold_counterexample:
  "percent_change 1 1 \<ge> threshold_percent ((SimpleStrategy ''USD/JPY'' 0 1000)\<lparr>previous_rate := Some 1\<rparr>)
   \<and> simple_make_decision ((SimpleStrategy ''USD/JPY'' 0 1000)\<lparr>previous_rate := Some 1\<rparr>)
        [''USD/JPY'' \<mapsto> \<lparr>rate = 1, timestamp = 1\<rparr>]
      = Inr (Trade Buy ''USD/JPY'' 1000 1,
             (SimpleStrategy ''USD/JPY'' 0 1000)\<lparr>previous_rate := Some 1\<rparr>)"
  by (simp add: SimpleStrategy_def percent_change_def simple_make_decision_def)

text \<open>
  Claim C4.  A fresh strategy is fed any sequence of snapshots.  The calls before the
  first snapshot that contains the configured instrument return no-trade and leave the
  state alone; the first call whose snapshot contains the instrument returns no-trade
  and stores that snapshot's rate as the previous rate.
\<close>

theorem simple_first_observation:
  assumes "\<forall>md \<in> set pre. md cp = None"
    and "md cp = Some q"
  shows "feed (SimpleStrategy cp thr amt) (pre @ [md]) =
           Inr (replicate (length pre) NoTrade @ [NoTrade],
                (SimpleStrategy cp thr amt)\<lparr>previous_rate := Some (rate q)\<rparr>)"
proof -
  let ?s = "SimpleStrategy cp thr amt"
  have cp: "currency_pair ?s = cp" and pr: "previous_rate ?s = None"
    by (simp_all add: SimpleStrategy_def)
  have "feed ?s pre = Inr (replicate (length pre) NoTrade, ?s)"
    using assms(1) cp by (intro feed_absent) simp
  moreover have "simple_make_decision ?s md = Inr (NoTrade, ?s\<lparr>previous_rate := Some (rate q)\<rparr>)"
    using assms(2) cp pr by (simp add: simple_make_decision_def)
  ultimately show ?thesis
    by (simp add: feed_append)
qed

theorem simple_first_observation_witness:
  "feed (SimpleStrategy ''USD/JPY'' 2 1000)
        ([[''EUR/USD'' \<mapsto> \<lparr>rate = 1.1, timestamp = 0\<rparr>]] @ [[''USD/JPY'' \<mapsto> \<lparr>rate = 150, timestamp = 1\<rparr>]])
     = Inr ([NoTrade, NoTrade],
            (SimpleStrategy ''USD/JPY'' 2 1000)\<lparr>previous_rate := Some 150\<rparr>)"
  using simple_first_observation
    [of "[[''EUR/USD'' \<mapsto> \<lparr>rate = 1.1, timestamp = 0\<rparr>]]" "''USD/JPY''"
        "[''USD/JPY'' \<mapsto> \<lparr>rate = 150, timestamp = 1\<rparr>]" "\<lparr>rate = 150, timestamp = 1\<rparr>" 2 1000]
  by simp

section \<open>Properties of RealtimeDataManager\<close>

lemma fetch_pairs_result:
  "fetch_pairs h ts ps acc = Inr u \<Longrightarrow>
     u p = (if p \<in> set ps then
              (case unpack_pair p of
                 Inr (a, b) \<Rightarrow>
                   (case get_exchange_rate h a b of
                      Inr (Some r) \<Rightarrow> Some \<lparr>rate = r, timestamp = ts\<rparr>
                    | _ \<Rightarrow> acc p)
               | _ \<Rightarrow> acc p)
            else acc p)"
proof (induction ps arbitrary: acc)
  case Nil
  then show ?case by simp
next
  case (Cons x ps)
  then show ?case
    by (auto split: sum.splits option.splits prod.splits if_splits)
qed

lemma latest_data_update_data:
  "update_data m t = Inr m' \<Longrightarrow>
     fetch_pairs (http t) (clock t) (currency_pairs m) Map.empty = Inr (latest_data m')
     \<and> update_interval m' = update_interval m \<and> currency_pairs m' = currency_pairs m"
  by (auto simp: update_data_def save_data_to_file_def Let_def split: sum.splits)

lemma update_loop_length:
  "length (snd (update_loop m ts)) = length (takeWhile (\<lambda>t. \<not> stop_flag_is_set t) ts)"
proof (induction ts arbitrary: m)
  case Nil
  then show ?case by simp
next
  case (Cons t ts)
  show ?case
  proof (cases "stop_flag_is_set t")
    case True
    then show ?thesis by simp
  next
    case False
    obtain m' pause where b: "update_loop_body m t = (m', pause)"
      by (cases "update_loop_body m t")
    obtain m'' pauses where l: "update_loop m' ts = (m'', pauses)"
      by (cases "update_loop m' ts")
    have "length pauses = length (takeWhile (\<lambda>t. \<not> stop_flag_is_set t) ts)"
      using Cons.IH [of m'] l by simp
    then show ?thesis using False b l by simp
  qed
qed

lemma unpack_examples:
  "unpack_pair ''EUR/USD'' = Inr (''EUR'', ''USD'')"
  "unpack_pair ''USD/JPY'' = Inr (''USD'', ''JPY'')"
  "unpack_pair ''GBP/USD'' = Inr (''GBP'', ''USD'')"
  "unpack_pair ''USD/CHF'' = Inr (''USD'', ''CHF'')"
  "unpack_pair ''USD/CAD'' = Inr (''USD'', ''CAD'')"
  by (simp_all add: unpack_pair_def)

text \<open>
  Claim C2.  When \<open>_update_data\<close> publishes a snapshot at a tick (no fetch raised), the
  snapshot holds exactly the configured pairs whose fetch returned a rate on that tick,
  each with that rate and the tick's timestamp; a pair whose fetch returned \<open>None\<close> is
  absent, whatever the previous snapshot held for it.
\<close>

theorem snapshot_exactly_successes:
  assumes "update_data m t = Inr m'"
  shows "(latest_data m' p = Some q \<longleftrightarrow>
            p \<in> set (currency_pairs m) \<and> timestamp q = clock t \<and>
            (\<exists>a b. unpack_pair p = Inr (a, b) \<and>
                   get_exchange_rate (http t) a b = Inr (Some (rate q))))
       \<and> (\<forall>a b. unpack_pair p = Inr (a, b) \<and> get_exchange_rate (http t) a b = Inr None
              \<longrightarrow> latest_data m' p = None)"
proof -
  have f: "fetch_pairs (http t) (clock t) (currency_pairs m) Map.empty = Inr (latest_data m')"
    using assms by (simp add: latest_data_update_data)
  show ?thesis
    unfolding fetch_pairs_result [OF f, of p]
    by (cases q) (auto split: sum.splits option.splits prod.splits)
qed

theorem snapshot_exactly_successes_witness:
  "\<exists>m'. update_data ((RealtimeDataManager 60)\<lparr>latest_data := [''USD/JPY'' \<mapsto> \<lparr>rate = 150, timestamp = 0\<rparr>]\<rparr>)
            (example_tick eur_only False) = Inr m'
     \<and> latest_data m' ''EUR/USD'' = Some \<lparr>rate = 1.25, timestamp = 7\<rparr>
     \<and> latest_data m' ''USD/JPY'' = None"
proof -
  let ?m = "(RealtimeDataManager 60)\<lparr>latest_data := [''USD/JPY'' \<mapsto> \<lparr>rate = 150, timestamp = 0\<rparr>]\<rparr>"
  let ?t = "example_tick eur_only False"
  obtain m' where h: "update_data ?m ?t = Inr m'"
    by (simp add: update_data_def RealtimeDataManager_def example_tick_def unpack_examples get_exchange_rate_def eur_only_def)
  have "latest_data m' ''EUR/USD'' = Some \<lparr>rate = 1.25, timestamp = 7\<rparr>"
    using snapshot_exactly_successes [OF h, of "''EUR/USD''" "\<lparr>rate = 1.25, timestamp = 7\<rparr>"]
    by (simp add: RealtimeDataManager_def example_tick_def unpack_examples get_exchange_rate_def eur_only_def)
  moreover have "latest_data m' ''USD/JPY'' = None"
    using snapshot_exactly_successes [OF h, of "''USD/JPY''" "\<lparr>rate = 150, timestamp = 0\<rparr>"]
    by (simp add: example_tick_def unpack_examples get_exchange_rate_def eur_only_def)
  ultimately show ?thesis using h by blast
qed

text \<open>
  Claim C8, as the code has it.  A fetch that fails inside \<open>get_exchange_rate\<close>
  (it returns \<open>None\<close>) and an exception while the journal is written are both absorbed
  within the tick: the snapshot of every pair that fetched successfully on the tick is
  published, and the loop sleeps for the regular update interval.  An exception that
  escapes a fetch leaves \<open>_update_data\<close> before anything is published: the previous
  snapshot stays, and the loop sleeps for the fixed 5 seconds.  In neither case does the
  loop end: it runs one iteration for each tick until the stop flag is set.
\<close>

theorem update_loop_survives_failures:
  "(\<forall>u. fetch_pairs (http t) (clock t) (currency_pairs m) Map.empty = Inr u \<longrightarrow>
       (\<exists>m'. update_data m t = Inr m' \<and> latest_data m' = u \<and>
             update_loop_body m t = (m', update_interval m)) \<and>
       (\<forall>p a b r. p \<in> set (currency_pairs m) \<and> unpack_pair p = Inr (a, b) \<and>
                  get_exchange_rate (http t) a b = Inr (Some r)
                  \<longrightarrow> u p = Some \<lparr>rate = r, timestamp = clock t\<rparr>))
   \<and> (\<forall>e. fetch_pairs (http t) (clock t) (currency_pairs m) Map.empty = Inl e \<longrightarrow>
          update_data m t = Inl e \<and> update_loop_body m t = (m, 5))
   \<and> length (snd (update_loop m ts)) = length (takeWhile (\<lambda>t. \<not> stop_flag_is_set t) ts)"
proof (intro conjI allI impI)
  fix u assume f: "fetch_pairs (http t) (clock t) (currency_pairs m) Map.empty = Inr u"
  then show "\<exists>m'. update_data m t = Inr m' \<and> latest_data m' = u \<and>
             update_loop_body m t = (m', update_interval m)"
    by (simp add: update_data_def update_loop_body_def save_data_to_file_def Let_def)
  fix p a b r
  assume "p \<in> set (currency_pairs m) \<and> unpack_pair p = Inr (a, b) \<and>
                  get_exchange_rate (http t) a b = Inr (Some r)"
  then show "u p = Some \<lparr>rate = r, timestamp = clock t\<rparr>"
    by (simp add: fetch_pairs_result [OF f, of p])
next
  fix e assume "fetch_pairs (http t) (clock t) (currency_pairs m) Map.empty = Inl e"
  then show "update_data m t = Inl e" "update_loop_body m t = (m, 5)"
    by (simp_all add: update_data_def update_loop_body_def)
next
  show "length (snd (update_loop m ts)) = length (takeWhile (\<lambda>t. \<not> stop_flag_is_set t) ts)"
    by (rule update_loop_length)
qed

theorem update_loop_survives_failures_witness:
  "update_loop_body (RealtimeDataManager 60) (example_tick eur_only True)
     = ((RealtimeDataManager 60)\<lparr>latest_data := [''EUR/USD'' \<mapsto> \<lparr>rate = 1.25, timestamp = 7\<rparr>]\<rparr>, 60)
   \<and> update_loop_body (RealtimeDataManager 60) (example_tick jpy_garbled False) = (RealtimeDataManager 60, 5)
   \<and> length (snd (update_loop (RealtimeDataManager 60)
        [example_tick jpy_garbled False, example_tick eur_only True])) = 2"
proof -
  let ?m = "RealtimeDataManager 60"
  have p: "currency_pairs ?m = [''EUR/USD'', ''USD/JPY'', ''GBP/USD'', ''USD/CHF'', ''USD/CAD'']"
    and i: "update_interval ?m = 60"
    by (simp_all add: RealtimeDataManager_def)
  have a: "fetch_pairs (http (example_tick eur_only True)) (clock (example_tick eur_only True))
             (currency_pairs ?m) Map.empty = Inr [''EUR/USD'' \<mapsto> \<lparr>rate = 1.25, timestamp = 7\<rparr>]"
    by (simp add: p example_tick_def unpack_examples get_exchange_rate_def eur_only_def)
  have b: "fetch_pairs (http (example_tick jpy_garbled False)) (clock (example_tick jpy_garbled False))
             (currency_pairs ?m) Map.empty = Inl ValueError"
    by (simp add: p example_tick_def unpack_examples get_exchange_rate_def jpy_garbled_def)
  have 1: "update_loop_body ?m (example_tick eur_only True)
     = (?m\<lparr>latest_data := [''EUR/USD'' \<mapsto> \<lparr>rate = 1.25, timestamp = 7\<rparr>]\<rparr>, 60)"
    using update_loop_survives_failures [of "example_tick eur_only True" ?m "[]"] a i
    by (auto simp: update_data_def save_data_to_file_def example_tick_def)
  have 2: "update_loop_body ?m (example_tick jpy_garbled False) = (?m, 5)"
    using update_loop_survives_failures [of "example_tick jpy_garbled False" ?m "[]"] b
    by simp
  have 3: "length (snd (update_loop ?m [example_tick jpy_garbled False, example_tick eur_only True])) = 2"
    using update_loop_survives_failures
      [of "example_tick eur_only True" ?m "[example_tick jpy_garbled False, example_tick eur_only True]"]
    by (simp add: example_tick_def)
  from 1 2 3 show ?thesis by simp
qed

text \<open>
  C8 as it is written fails on both kinds of failure.  The fetch for EUR/USD succeeds and
  the fetch for USD/JPY then raises \<open>ValueError\<close>: the loop backs off for 5 seconds, but
  no snapshot is published, and EUR/USD is not in the snapshot readers see.  When the
  journal write fails instead, the snapshot is published and the next poll follows after
  the regular interval of 60 seconds, not after the backoff.
\<close>

theorem raised_fetch_publishes_nothing_counterexample:
  "get_exchange_rate jpy_garbled ''EUR'' ''USD'' = Inr (Some 1.25)
   \<and> get_exchange_rate jpy_garbled ''USD'' ''JPY'' = Inl ValueError
   \<and> update_loop_body (RealtimeDataManager 60) (example_tick jpy_garbled False) = (RealtimeDataManager 60, 5)
   \<and> latest_data (RealtimeDataManager 60) ''EUR/USD'' = None
   \<and> snd (update_loop_body (RealtimeDataManager 60) (example_tick eur_only True)) = 60"
  by (simp add: update_loop_body_def update_data_def save_data_to_file_def example_tick_def
        RealtimeDataManager_def unpack_examples get_exchange_rate_def jpy_garbled_def eur_only_def)

section \<open>Properties of TradingBot\<close>

lemma execute_trade_appends:
  "d ''action'' = Some a \<Longrightarrow> d ''currency'' = Some c \<Longrightarrow> d ''amount'' = Some am \<Longrightarrow>
   d ''price'' = Some p \<Longrightarrow> d ''reason'' = Some r \<Longrightarrow>
   execute_trade self now d = Inr (self\<lparr>trade_history := trade_history self @
               [\<lparr>trade_timestamp = now, trade_action = a, trade_currency = c,
                 amount = am, price = p, reason = r\<rparr>]\<rparr>)"
  by (simp add: execute_trade_def getitem_def)

text \<open>
  Claim C9.  An exception of the data fetch, of the strategy evaluation or of the trade
  execution ends the cycle with the result \<open>False\<close> and the bot unchanged; the call
  itself always returns.  A no-trade decision gives \<open>True\<close> and leaves the trade
  history as it was; a trade decision (the flag and the five entries of a trade) gives
  \<open>True\<close> and appends exactly one record.
\<close>

theorem check_and_execute_cycle:
  "(\<forall>e. get_latest_data = Inl e \<longrightarrow>
        check_and_execute self now get_latest_data make_decision = (False, self))
 \<and> (\<forall>md e. get_latest_data = Inr md \<and> make_decision md = Inl e \<longrightarrow>
        check_and_execute self now get_latest_data make_decision = (False, self))
 \<and> (\<forall>md d flag e. get_latest_data = Inr md \<and> make_decision md = Inr d \<and>
        d ''should_trade'' = Some flag \<and> truthy flag \<and> execute_trade self now d = Inl e \<longrightarrow>
        check_and_execute self now get_latest_data make_decision = (False, self))
 \<and> (\<forall>md d flag. get_latest_data = Inr md \<and> make_decision md = Inr d \<and>
        d ''should_trade'' = Some flag \<and> \<not> truthy flag \<longrightarrow>
        check_and_execute self now get_latest_data make_decision = (True, self))
 \<and> (\<forall>md d flag a c am p r. get_latest_data = Inr md \<and> make_decision md = Inr d \<and>
        d ''should_trade'' = Some flag \<and> truthy flag \<and>
        d ''action'' = Some a \<and> d ''currency'' = Some c \<and> d ''amount'' = Some am \<and>
        d ''price'' = Some p \<and> d ''reason'' = Some r \<longrightarrow>
        check_and_execute self now get_latest_data make_decision =
          (True, self\<lparr>trade_history := trade_history self @
               [\<lparr>trade_timestamp = now, trade_action = a, trade_currency = c,
                 amount = am, price = p, reason = r\<rparr>]\<rparr>))"
  by (auto simp: check_and_execute_def getitem_def execute_trade_appends)



theorem check_and_execute_cycle_witness:
  "check_and_execute (TradingBot ''paper'') 3 (Inl AttributeError)
       (\<lambda>md. Inr (decision_dict ''drop'' (Trade Buy ''USD/JPY'' 1000 145.5))) = (False, TradingBot ''paper'')
   \<and> check_and_execute (TradingBot ''paper'') 3 (Inr Map.empty) (\<lambda>md. Inl ZeroDivisionError)
       = (False, TradingBot ''paper'')
   \<and> check_and_execute (TradingBot ''paper'') 3 (Inr Map.empty) (\<lambda>md. Inr [''should_trade'' \<mapsto> PBool True])
       = (False, TradingBot ''paper'')
   \<and> check_and_execute (TradingBot ''paper'') 3 (Inr Map.empty) (\<lambda>md. Inr (decision_dict [] NoTrade))
       = (True, TradingBot ''paper'')
   \<and> check_and_execute (TradingBot ''paper'') 3 (Inr Map.empty)
       (\<lambda>md. Inr (decision_dict ''drop'' (Trade Buy ''USD/JPY'' 1000 145.5)))
       = (True, (TradingBot ''paper'')\<lparr>trade_history :=
            [\<lparr>trade_timestamp = 3, trade_action = PStr ''buy'', trade_currency = PStr ''USD/JPY'',
              amount = PNum 1000, price = PNum 145.5, reason = PStr ''drop''\<rparr>]\<rparr>)"
proof -
  let ?b = "TradingBot ''paper''"
  let ?buy = "\<lambda>md::market_data. (Inr (decision_dict ''drop'' (Trade Buy ''USD/JPY'' 1000 145.5)) :: py_error + pydict)"
  have 1: "check_and_execute ?b 3 (Inl AttributeError) ?buy = (False, ?b)"
    using check_and_execute_cycle [of "Inl AttributeError" ?b 3 ?buy] by simp
  have 2: "check_and_execute ?b 3 (Inr Map.empty) (\<lambda>md. Inl ZeroDivisionError) = (False, ?b)"
    using check_and_execute_cycle [of "Inr Map.empty" ?b 3 "\<lambda>md. Inl ZeroDivisionError"] by simp
  have 3: "check_and_execute ?b 3 (Inr Map.empty) (\<lambda>md. Inr [''should_trade'' \<mapsto> PBool True]) = (False, ?b)"
    using check_and_execute_cycle [of "Inr Map.empty" ?b 3 "\<lambda>md. Inr [''should_trade'' \<mapsto> PBool True]"]
    by (simp add: execute_trade_def getitem_def)
  have 4: "check_and_execute ?b 3 (Inr Map.empty) (\<lambda>md. Inr (decision_dict [] NoTrade)) = (True, ?b)"
    using check_and_execute_cycle [of "Inr Map.empty" ?b 3 "\<lambda>md. Inr (decision_dict [] NoTrade)"]
    by simp
  have 5: "check_and_execute ?b 3 (Inr Map.empty) ?buy
       = (True, ?b\<lparr>trade_history :=
            [\<lparr>trade_timestamp = 3, trade_action = PStr ''buy'', trade_currency = PStr ''USD/JPY'',
              amount = PNum 1000, price = PNum 145.5, reason = PStr ''drop''\<rparr>]\<rparr>)"
    using check_and_execute_cycle [of "Inr Map.empty" ?b 3 ?buy]
    by (simp add: TradingBot_def)
  from 1 2 3 4 5 show ?thesis by simp
qed

section \<open>Properties of HistoricalDataManager\<close>

lemma load_local_data_save_data [simp]:
  "load_local_data (save_data files cp data) cp = data"
  by (simp add: load_local_data_def save_data_def)

lemma set_dates_keep_last [simp]:
  "set (dates (drop_duplicated_keep_last rows)) = set (dates rows)"
  by (induction rows) (auto simp: dates_def)

lemma distinct_keep_last: "distinct (dates (drop_duplicated_keep_last rows))"
proof (induction rows)
  case Nil
  then show ?case by (simp add: dates_def)
next
  case (Cons row rows)
  have "fst row \<notin> set (dates rows) \<Longrightarrow> fst row \<notin> set (dates (drop_duplicated_keep_last rows))"
    by simp
  with Cons show ?case by (simp add: dates_def)
qed

lemma map_of_keep_last:
  "map_of (drop_duplicated_keep_last rows) d = map_of (rev rows) d"
proof (induction rows)
  case Nil
  then show ?case by simp
next
  case (Cons row rows)
  show ?case
  proof (cases "fst row \<in> set (dates rows)")
    case True
    then have "fst row \<in> dom (map_of (rev rows))"
      by (simp add: dom_map_of_conv_image_fst dates_def)
    then show ?thesis using True Cons
      by (cases row) (auto simp: map_add_def split: option.splits)
  next
    case False
    then have "map_of (rev rows) (fst row) = None"
      by (simp add: map_of_eq_None_iff dates_def)
    then show ?thesis using False Cons
      by (cases row) (auto simp: map_add_def split: option.splits)
  qed
qed

lemma sorted_keep_last:
  "sorted (dates rows) \<Longrightarrow> sorted (dates (drop_duplicated_keep_last rows))"
proof (induction rows)
  case Nil
  then show ?case by simp
next
  case (Cons row rows)
  then have s: "sorted (dates (drop_duplicated_keep_last rows))"
    and le: "\<forall>d \<in> set (dates rows). fst row \<le> d"
    by (simp_all add: dates_def)
  have "\<forall>d \<in> set (dates (drop_duplicated_keep_last rows)). fst row \<le> d"
    using le by simp
  with s show ?case by (simp add: dates_def)
qed

lemma keep_newest:
  assumes "(d, r) \<in> set (drop_duplicated_keep_last (local_data @ new_data))"
    and "d \<in> set (dates new_data)"
  shows "map_of (rev new_data) d = Some r"
proof -
  have "map_of (drop_duplicated_keep_last (local_data @ new_data)) d = Some r"
    using assms(1) distinct_keep_last [of "local_data @ new_data"]
    by (simp add: dates_def)
  then have "map_of (rev new_data @ rev local_data) d = Some r"
    by (simp add: map_of_keep_last)
  moreover have "d \<in> dom (map_of (rev new_data))"
    using assms(2) by (simp add: dom_map_of_conv_image_fst dates_def)
  ultimately show ?thesis
    by (auto simp: map_add_def split: option.splits)
qed

lemma keep_last_append:
  "drop_duplicated_keep_last (xs @ ys) =
     filter (\<lambda>row. fst row \<notin> set (dates ys)) (drop_duplicated_keep_last xs)
       @ drop_duplicated_keep_last ys"
  by (induction xs) (auto simp: dates_def)

lemma map_of_rev_append_new:
  "d \<in> set (dates new_data) \<Longrightarrow>
     map_of (rev (local_data @ new_data)) d = map_of (rev new_data) d"
proof -
  assume "d \<in> set (dates new_data)"
  then have "d \<in> dom (map_of (rev new_data))"
    by (simp add: dom_map_of_conv_image_fst dates_def)
  then show ?thesis by (auto simp: map_add_def split: option.splits)
qed

lemma map_of_rev_append_old:
  "d \<notin> set (dates new_data) \<Longrightarrow>
     map_of (rev (local_data @ new_data)) d = map_of (rev local_data) d"
proof -
  assume "d \<notin> set (dates new_data)"
  then have "map_of (rev new_data) d = None"
    by (simp add: map_of_eq_None_iff dates_def)
  then show ?thesis by (simp add: map_add_def)
qed

text \<open>
  Claim C1, as the code has it.  The refresh found a non-empty batch.  With a non-empty
  cached series the stored series is the cached rows whose dates the batch does not
  have, in their order, followed by the rows of the batch, in theirs (of several rows
  with one date the last stays).  Its dates are those of the cache and of the batch, each
  once; a date of the batch carries the newly fetched rate (the last one the batch has
  for it), every other date its cached rate.  The rows are not sorted: the dates are
  ascending when the cached rows followed by the batch are ascending.  With an empty
  cache the batch is stored as it was fetched.
\<close>

theorem update_merges_keep_newest:
  assumes "local_data = load_local_data files cp"
    and "get_historical_rates svc cp (fst (request_range local_data today))
           (snd (request_range local_data today)) = Inr new_data"
    and "new_data \<noteq> []"
    and "result = load_local_data (update_historical_data svc today files cp) cp"
  shows "(local_data \<noteq> [] \<longrightarrow>
            result = filter (\<lambda>row. fst row \<notin> set (dates new_data)) (drop_duplicated_keep_last local_data)
                       @ drop_duplicated_keep_last new_data \<and>
            set (dates result) = set (dates local_data) \<union> set (dates new_data) \<and>
            distinct (dates result) \<and>
            (\<forall>d \<in> set (dates new_data). map_of result d = map_of (rev new_data) d) \<and>
            (\<forall>d. d \<notin> set (dates new_data) \<longrightarrow> map_of result d = map_of (rev local_data) d) \<and>
            (\<forall>d r. (d, r) \<in> set result \<and> d \<in> set (dates new_data)
                \<longrightarrow> map_of (rev new_data) d = Some r) \<and>
            (sorted (dates (local_data @ new_data)) \<longrightarrow> sorted_wrt (<) (dates result)))
       \<and> (local_data = [] \<longrightarrow> result = new_data)"
proof -
  have r: "result = combine local_data new_data"
    using assms by (simp add: update_historical_data_def Let_def case_prod_beta)
  show ?thesis
  proof (cases "local_data = []")
    case True
    then show ?thesis using r by (simp add: combine_def)
  next
    case False
    then have k: "result = drop_duplicated_keep_last (local_data @ new_data)"
      using r by (simp add: combine_def)
    have 1: "result = filter (\<lambda>row. fst row \<notin> set (dates new_data)) (drop_duplicated_keep_last local_data)
                       @ drop_duplicated_keep_last new_data"
      unfolding k by (rule keep_last_append)
    have "set (dates (local_data @ new_data)) = set (dates local_data) \<union> set (dates new_data)"
      by (simp add: dates_def)
    then have 2: "set (dates result) = set (dates local_data) \<union> set (dates new_data)"
      unfolding k by (simp only: set_dates_keep_last)
    have 3: "distinct (dates result)"
      unfolding k by (rule distinct_keep_last)
    have 4: "\<forall>d \<in> set (dates new_data). map_of result d = map_of (rev new_data) d"
      unfolding k using map_of_rev_append_new [of _ new_data local_data]
      by (simp add: map_of_keep_last del: rev_append map_of_append)
    have 5: "\<forall>d. d \<notin> set (dates new_data) \<longrightarrow> map_of result d = map_of (rev local_data) d"
      unfolding k using map_of_rev_append_old [of _ new_data local_data]
      by (simp add: map_of_keep_last del: rev_append map_of_append)
    have 6: "\<forall>d r. (d, r) \<in> set result \<and> d \<in> set (dates new_data)
                \<longrightarrow> map_of (rev new_data) d = Some r"
      unfolding k using keep_newest by blast
    have 7: "sorted (dates (local_data @ new_data)) \<longrightarrow> sorted_wrt (<) (dates result)"
      unfolding k using sorted_keep_last [of "local_data @ new_data"]
        distinct_keep_last [of "local_data @ new_data"]
      by (simp add: strict_sorted_iff)
    from 1 2 3 4 5 6 7 False show ?thesis by blast
  qed
qed

theorem update_merges_keep_newest_witness:
  "load_local_data (update_historical_data overlapping_batch 5 [''USD_JPY.json'' \<mapsto> [(0, 9), (1, 10)]] ''USD/JPY'') ''USD/JPY''
     = [(0, 9), (1, 11), (2, 20)]
   \<and> distinct (dates [(0, 9), (1, 11), (2, 20)])
   \<and> map_of [(0, 9), (1, 11), (2, 20 :: real)] (1 :: int) = Some 11
   \<and> sorted_wrt (<) (dates [(0, 9), (1, 11), (2, 20)])"
proof -
  let ?files = "[''USD_JPY.json'' \<mapsto> [(0 :: int, 9 :: real), (1, 10)]]"
  let ?result = "load_local_data (update_historical_data overlapping_batch 5 ?files ''USD/JPY'') ''USD/JPY''"
  have l: "[(0, 9), (1, 10)] = load_local_data ?files ''USD/JPY''"
    by (simp add: load_local_data_def file_path_def)
  have g: "get_historical_rates overlapping_batch ''USD/JPY'' (fst (request_range [(0, 9), (1, 10)] 5))
           (snd (request_range [(0, 9), (1, 10)] 5)) = Inr [(1, 11), (2, 20)]"
    by (simp add: get_historical_rates_def overlapping_batch_def)
  have n: "[(1 :: int, 11 :: real), (2, 20)] \<noteq> []" by simp
  have "?result = filter (\<lambda>row. fst row \<notin> set (dates [(1, 11), (2, 20)]))
                    (drop_duplicated_keep_last [(0, 9), (1, 10)])
                  @ drop_duplicated_keep_last [(1, 11), (2, 20)]"
    using update_merges_keep_newest [OF l g n refl] by simp
  then have v: "?result = [(0, 9), (1, 11), (2, 20)]"
    by (simp add: dates_def)
  show ?thesis unfolding v by (simp add: dates_def)
qed

text \<open>
  C1 as it is written promises ascending dates for every cached series and batch.  The
  code never sorts: the cache holds days 1 and 3, the batch days 1 and 2, and the stored
  rows are day 3 (cached), then days 1 and 2 (fetched).
\<close>

theorem merge_does_not_sort_counterexample:
  "load_local_data
     (update_historical_data overlapping_batch 5 [''USD_JPY.json'' \<mapsto> [(1, 10), (3, 30)]] ''USD/JPY'')
     ''USD/JPY'' = [(3, 30), (1, 11), (2, 20)]
   \<and> \<not> sorted (dates [(3, 30), (1, 11), (2, 20)])"
  by (simp add: update_historical_data_def get_historical_rates_def overlapping_batch_def
        combine_def dates_def case_prod_beta load_local_data_def save_data_def file_path_def)

text \<open>
  Claim C10.  When the source returns the empty list for the requested range,
  \<open>update_historical_data\<close> returns before the save step: every file, and with it
  every cached series, is as before.
\<close>

theorem update_without_new_data_changes_nothing:
  assumes "get_historical_rates svc cp
             (fst (request_range (load_local_data files cp) today))
             (snd (request_range (load_local_data files cp) today)) = Inr []"
  shows "update_historical_data svc today files cp = files"
  using assms by (simp add: update_historical_data_def Let_def case_prod_beta)

theorem update_without_new_data_changes_nothing_witness:
  "update_historical_data no_history 5 [''USD_JPY.json'' \<mapsto> [(1, 10)]] ''USD/JPY''
     = [''USD_JPY.json'' \<mapsto> [(1, 10)]]"
  using update_without_new_data_changes_nothing
    [of no_history "''USD/JPY''" "[''USD_JPY.json'' \<mapsto> [(1, 10)]]" 5]
  by (simp add: get_historical_rates_def no_history_def)

lemma filter_range_rows:
  "filter_range start_date end_date rows =
     filter (\<lambda>row. (case start_date of None \<Rightarrow> True | Some s \<Rightarrow> s \<le> fst row) \<and>
                    (case end_date of None \<Rightarrow> True | Some e \<Rightarrow> fst row \<le> e)) rows"
  by (auto simp: filter_range_def Let_def split: option.splits intro: filter_cong)

text \<open>
  Claim C7, as the code has it.  \<open>load_historical_data\<close> has no failure.  When the
  cached series is not empty and not stale, it returns that series filtered to the
  requested range and leaves the files alone.  Otherwise it refreshes first and returns
  the series the refresh leaves in the file, filtered: the cached rows merged with the
  new ones when the source sends rows, and the cached series as it was (the empty series
  when nothing is cached) when the source sends none or the request fails.  Filtered
  means the rows, in their order, whose date is on or after the start and on or before
  the end, where one is given.
\<close>

theorem load_returns_cached_filtered:
  "(load_local_data files cp \<noteq> [] \<and> \<not> need_update (load_local_data files cp) today \<longrightarrow>
       load_historical_data svc today files cp start_date end_date =
         (filter_range start_date end_date (load_local_data files cp), files))
   \<and> (load_local_data files cp = [] \<or> need_update (load_local_data files cp) today \<longrightarrow>
       load_historical_data svc today files cp start_date end_date =
         (filter_range start_date end_date
            (load_local_data (update_historical_data svc today files cp) cp),
          update_historical_data svc today files cp))
   \<and> (\<forall>new_data.
         get_historical_rates svc cp (fst (request_range (load_local_data files cp) today))
           (snd (request_range (load_local_data files cp) today)) = Inr new_data \<and> new_data \<noteq> [] \<longrightarrow>
         update_historical_data svc today files cp =
           files(file_path cp \<mapsto> combine (load_local_data files cp) new_data) \<and>
         load_local_data (update_historical_data svc today files cp) cp =
           combine (load_local_data files cp) new_data)
   \<and> (get_historical_rates svc cp (fst (request_range (load_local_data files cp) today))
           (snd (request_range (load_local_data files cp) today)) = Inr [] \<or>
       (\<exists>e. get_historical_rates svc cp (fst (request_range (load_local_data files cp) today))
           (snd (request_range (load_local_data files cp) today)) = Inl e) \<longrightarrow>
         update_historical_data svc today files cp = files)
   \<and> (\<forall>rows. filter_range start_date end_date rows =
         filter (\<lambda>row. (case start_date of None \<Rightarrow> True | Some s \<Rightarrow> s \<le> fst row) \<and>
                        (case end_date of None \<Rightarrow> True | Some e \<Rightarrow> fst row \<le> e)) rows)
   \<and> fst (load_historical_data svc today files cp start_date end_date) =
       filter_range start_date end_date
         (load_local_data (snd (load_historical_data svc today files cp start_date end_date)) cp)
   \<and> (load_local_data files cp = [] \<and>
       load_local_data (update_historical_data svc today files cp) cp = []
       \<longrightarrow> fst (load_historical_data svc today files cp start_date end_date) = [])"
proof (intro conjI)
  show "load_local_data files cp \<noteq> [] \<and> \<not> need_update (load_local_data files cp) today \<longrightarrow>
       load_historical_data svc today files cp start_date end_date =
         (filter_range start_date end_date (load_local_data files cp), files)"
    by (simp add: load_historical_data_def Let_def)
  show "load_local_data files cp = [] \<or> need_update (load_local_data files cp) today \<longrightarrow>
       load_historical_data svc today files cp start_date end_date =
         (filter_range start_date end_date
            (load_local_data (update_historical_data svc today files cp) cp),
          update_historical_data svc today files cp)"
    by (auto simp: load_historical_data_def Let_def)
  show "\<forall>new_data.
         get_historical_rates svc cp (fst (request_range (load_local_data files cp) today))
           (snd (request_range (load_local_data files cp) today)) = Inr new_data \<and> new_data \<noteq> [] \<longrightarrow>
         update_historical_data svc today files cp =
           files(file_path cp \<mapsto> combine (load_local_data files cp) new_data) \<and>
         load_local_data (update_historical_data svc today files cp) cp =
           combine (load_local_data files cp) new_data"
    by (simp add: update_historical_data_def Let_def case_prod_beta save_data_def load_local_data_def)
  show "get_historical_rates svc cp (fst (request_range (load_local_data files cp) today))
           (snd (request_range (load_local_data files cp) today)) = Inr [] \<or>
       (\<exists>e. get_historical_rates svc cp (fst (request_range (load_local_data files cp) today))
           (snd (request_range (load_local_data files cp) today)) = Inl e) \<longrightarrow>
         update_historical_data svc today files cp = files"
    by (auto simp: update_historical_data_def Let_def case_prod_beta)
  show "\<forall>rows. filter_range start_date end_date rows =
         filter (\<lambda>row. (case start_date of None \<Rightarrow> True | Some s \<Rightarrow> s \<le> fst row) \<and>
                        (case end_date of None \<Rightarrow> True | Some e \<Rightarrow> fst row \<le> e)) rows"
    by (simp add: filter_range_rows)
  show "fst (load_historical_data svc today files cp start_date end_date) =
       filter_range start_date end_date
         (load_local_data (snd (load_historical_data svc today files cp start_date end_date)) cp)"
    by (simp add: load_historical_data_def Let_def)
  show "load_local_data files cp = [] \<and>
       load_local_data (update_historical_data svc today files cp) cp = []
       \<longrightarrow> fst (load_historical_data svc today files cp start_date end_date) = []"
    by (auto simp: load_historical_data_def Let_def filter_range_def split: option.splits)
qed

theorem load_returns_cached_filtered_witness:
  "load_historical_data overlapping_batch 100 [''USD_JPY.json'' \<mapsto> [(1, 10)]] ''USD/JPY'' (Some 2) None
     = ([(2, 20)], [''USD_JPY.json'' \<mapsto> [(1, 11), (2, 20)]])
   \<and> load_historical_data overlapping_batch 100 [''USD_JPY.json'' \<mapsto> [(99, 5)]] ''USD/JPY'' None None
     = ([(99, 5)], [''USD_JPY.json'' \<mapsto> [(99, 5)]])
   \<and> load_historical_data no_history 100 Map.empty ''USD/JPY'' None None = ([], Map.empty)"
proof -
  let ?stale = "[''USD_JPY.json'' \<mapsto> [(1 :: int, 10 :: real)]]"
  let ?fresh = "[''USD_JPY.json'' \<mapsto> [(99 :: int, 5 :: real)]]"
  have p: "file_path ''USD/JPY'' = ''USD_JPY.json''"
    by (simp add: file_path_def)
  have ls: "load_local_data ?stale ''USD/JPY'' = [(1, 10)]"
    and lf: "load_local_data ?fresh ''USD/JPY'' = [(99, 5)]"
    and le: "load_local_data Map.empty ''USD/JPY'' = []"
    by (simp_all add: load_local_data_def p)
  have ns: "need_update [(1, 10)] 100" and nf: "\<not> need_update [(99, 5)] 100"
    by (simp_all add: need_update_def dates_def)
  have gs: "get_historical_rates overlapping_batch ''USD/JPY'' a b = Inr [(1, 11), (2, 20)]" for a b
    by (simp add: get_historical_rates_def overlapping_batch_def)
  have ge: "get_historical_rates no_history ''USD/JPY'' a b = Inr []" for a b
    by (simp add: get_historical_rates_def no_history_def)
  note t1 = load_returns_cached_filtered [of ?stale "''USD/JPY''" 100 overlapping_batch "Some 2" None]
  note t2 = load_returns_cached_filtered [of ?fresh "''USD/JPY''" 100 overlapping_batch None None]
  note t3 = load_returns_cached_filtered [of Map.empty "''USD/JPY''" 100 no_history None None]
  have u1: "update_historical_data overlapping_batch 100 ?stale ''USD/JPY'' = [''USD_JPY.json'' \<mapsto> [(1, 11), (2, 20)]]"
    using t1 by (simp add: ls gs p combine_def dates_def)
  have 1: "load_historical_data overlapping_batch 100 ?stale ''USD/JPY'' (Some 2) None
     = ([(2, 20)], [''USD_JPY.json'' \<mapsto> [(1, 11), (2, 20)]])"
    using t1 by (simp add: ls ns u1 load_local_data_def p filter_range_def)
  have 2: "load_historical_data overlapping_batch 100 ?fresh ''USD/JPY'' None None = ([(99, 5)], ?fresh)"
    using t2 by (simp add: lf nf filter_range_def)
  have u3: "update_historical_data no_history 100 Map.empty ''USD/JPY'' = Map.empty"
    using t3 by (simp add: ge)
  have 3: "load_historical_data no_history 100 Map.empty ''USD/JPY'' None None = ([], Map.empty)"
    using t3 by (simp add: le u3 filter_range_def)
  from 1 2 3 show ?thesis by simp
qed

text \<open>
  C7 as it is written has \<open>load\<close> fail with \<open>DataUnavailable\<close> when nothing is cached
  and the refresh fails.  In that case the code returns the empty series.
\<close>

theorem load_never_fails_counterexample:
  "load_as_specified no_history 100 Map.empty ''USD/JPY'' None None = DataUnavailable
   \<and> load_historical_data no_history 100 Map.empty ''USD/JPY'' None None = ([], Map.empty)"
  by (simp add: load_as_specified_def load_historical_data_def update_historical_data_def
        get_historical_rates_def no_history_def case_prod_beta load_local_data_def filter_range_def)

section \<open>Properties of CorrelationStrategy\<close>

lemma set_alist_update:
  "x \<in> set (AList.update k v al) \<Longrightarrow> x = (k, v) \<or> x \<in> set al"
  by (induction al) (auto split: if_splits)

lemma secondary_divergence_entries:
  assumes "secondary_divergence svc today md primary_data sp (dd, self, files) = Inr (dd', self', files')"
    and "distinct (map fst dd)"
    and "\<forall>x \<in> set dd. divergence (snd x) =
            divergence_of (primary_change (snd x)) (secondary_change (snd x)) (correlation (snd x))"
  shows "distinct (map fst dd') \<and>
         (\<forall>x \<in> set dd'. divergence (snd x) =
            divergence_of (primary_change (snd x)) (secondary_change (snd x)) (correlation (snd x)))"
  using assms
  by (auto simp: secondary_divergence_def Let_def distinct_update
      split: prod.splits if_splits option.splits dest!: set_alist_update)

lemma divergence_loop_entries:
  assumes "divergence_loop svc today md primary_data sps (dd, self, files) = Inr (dd', self', files')"
    and "distinct (map fst dd)"
    and "\<forall>x \<in> set dd. divergence (snd x) =
            divergence_of (primary_change (snd x)) (secondary_change (snd x)) (correlation (snd x))"
  shows "distinct (map fst dd') \<and>
         (\<forall>x \<in> set dd'. divergence (snd x) =
            divergence_of (primary_change (snd x)) (secondary_change (snd x)) (correlation (snd x)))"
  using assms
proof (induction sps arbitrary: dd self files)
  case Nil
  then show ?case by simp
next
  case (Cons sp sps)
  from Cons.prems(1) obtain dd1 self1 files1 where
    b: "secondary_divergence svc today md primary_data sp (dd, self, files) = Inr (dd1, self1, files1)"
    and l: "divergence_loop svc today md primary_data sps (dd1, self1, files1) = Inr (dd', self', files')"
    by (auto split: sum.splits)
  from secondary_divergence_entries [OF b Cons.prems(2) Cons.prems(3)]
  show ?case using Cons.IH [OF l] by blast
qed

lemma calculate_divergence_entries:
  assumes "calculate_divergence svc today self md files = Inr (dd, self', files')"
  shows "distinct (map fst dd) \<and>
         (\<forall>x \<in> set dd. divergence (snd x) =
            divergence_of (primary_change (snd x)) (secondary_change (snd x)) (correlation (snd x)))"
proof -
  obtain primary_data files0 where
    l: "load_historical_data svc today files (primary_pair self)
          (Some (today - 2 * int (correlation_window self))) (Some today) = (primary_data, files0)"
    by (cases "load_historical_data svc today files (primary_pair self)
          (Some (today - 2 * int (correlation_window self))) (Some today)")
  show ?thesis
  proof (cases "primary_data = []")
    case True
    then show ?thesis using assms l by (simp add: calculate_divergence_def Let_def)
  next
    case False
    then have "divergence_loop svc today md primary_data (secondary_pairs self) ([], self, files0)
                = Inr (dd, self', files')"
      using assms l by (simp add: calculate_divergence_def Let_def)
    from divergence_loop_entries [OF this] show ?thesis by simp
  qed
qed

lemma max_divergence_bounds:
  "max_divergence dd (mp, mv) = (mp', mv') \<Longrightarrow>
     mv \<le> mv' \<and> (\<forall>x \<in> set dd. \<forall>d. divergence (snd x) = Some d \<longrightarrow> \<bar>d\<bar> \<le> mv')"
proof (induction dd "(mp, mv)" arbitrary: mp mv rule: max_divergence.induct)
  case 1
  then show ?case by simp
next
  case (2 p entry rest mp mv)
  show ?case
  proof (cases "divergence entry")
    case None
    with 2 show ?thesis by auto
  next
    case (Some d)
    show ?thesis
    proof (cases "\<bar>d\<bar> > mv")
      case True
      with 2(2)[OF Some True] 2(4) Some show ?thesis by auto
    next
      case False
      with 2(3)[OF Some False] 2(4) Some show ?thesis by auto
    qed
  qed
qed

lemma max_divergence_same:
  "max_divergence dd (mp, mv) = (mp', mv') \<Longrightarrow> mv' \<le> mv \<Longrightarrow> mp' = mp"
proof (induction dd "(mp, mv)" arbitrary: mp mv rule: max_divergence.induct)
  case 1
  then show ?case by simp
next
  case (2 p entry rest mp mv)
  show ?case
  proof (cases "divergence entry")
    case None
    with 2 show ?thesis by auto
  next
    case (Some d)
    show ?thesis
    proof (cases "\<bar>d\<bar> > mv")
      case True
      then have "max_divergence rest (Some p, \<bar>d\<bar>) = (mp', mv')"
        using 2(4) Some by simp
      then have "\<bar>d\<bar> \<le> mv'" using max_divergence_bounds by blast
      with True 2(5) show ?thesis by simp
    next
      case False
      with 2(3)[OF Some False] 2(4) 2(5) Some show ?thesis by auto
    qed
  qed
qed

lemma max_divergence_first:
  "max_divergence dd (mp, mv) = (mp', mv') \<Longrightarrow> mv < mv' \<Longrightarrow>
     \<exists>pre p e post d. dd = pre @ (p, e) # post \<and> mp' = Some p \<and>
        divergence e = Some d \<and> \<bar>d\<bar> = mv' \<and>
        (\<forall>y \<in> set pre. \<forall>d'. divergence (snd y) = Some d' \<longrightarrow> \<bar>d'\<bar> < mv') \<and>
        (\<forall>y \<in> set post. \<forall>d'. divergence (snd y) = Some d' \<longrightarrow> \<bar>d'\<bar> \<le> mv')"
proof (induction dd "(mp, mv)" arbitrary: mp mv rule: max_divergence.induct)
  case 1
  then show ?case by simp
next
  case (2 p0 entry rest mp mv)
  show ?case
  proof (cases "divergence entry")
    case None
    then have m: "max_divergence rest (mp, mv) = (mp', mv')" using 2(4) by simp
    from 2(1)[OF None m 2(5)] obtain pre p e post d where
      h: "rest = pre @ (p, e) # post" "mp' = Some p" "divergence e = Some d" "\<bar>d\<bar> = mv'"
         "\<forall>y \<in> set pre. \<forall>d'. divergence (snd y) = Some d' \<longrightarrow> \<bar>d'\<bar> < mv'"
         "\<forall>y \<in> set post. \<forall>d'. divergence (snd y) = Some d' \<longrightarrow> \<bar>d'\<bar> \<le> mv'"
      by blast
    have "(p0, entry) # rest = ((p0, entry) # pre) @ (p, e) # post" using h(1) by simp
    moreover have "\<forall>y \<in> set ((p0, entry) # pre). \<forall>d'. divergence (snd y) = Some d' \<longrightarrow> \<bar>d'\<bar> < mv'"
      using h(5) None by simp
    ultimately show ?thesis using h(2,3,4,6) by blast
  next
    case (Some d0)
    show ?thesis
    proof (cases "\<bar>d0\<bar> > mv")
      case True
      then have m: "max_divergence rest (Some p0, \<bar>d0\<bar>) = (mp', mv')"
        using 2(4) Some by simp
      show ?thesis
      proof (cases "\<bar>d0\<bar> < mv'")
        case True
        from 2(2)[OF Some \<open>\<bar>d0\<bar> > mv\<close> m True] obtain pre p e post d where
          h: "rest = pre @ (p, e) # post" "mp' = Some p" "divergence e = Some d" "\<bar>d\<bar> = mv'"
             "\<forall>y \<in> set pre. \<forall>d'. divergence (snd y) = Some d' \<longrightarrow> \<bar>d'\<bar> < mv'"
             "\<forall>y \<in> set post. \<forall>d'. divergence (snd y) = Some d' \<longrightarrow> \<bar>d'\<bar> \<le> mv'"
          by blast
        have "(p0, entry) # rest = ((p0, entry) # pre) @ (p, e) # post" using h(1) by simp
        moreover have "\<forall>y \<in> set ((p0, entry) # pre). \<forall>d'. divergence (snd y) = Some d' \<longrightarrow> \<bar>d'\<bar> < mv'"
          using h(5) Some True by simp
        ultimately show ?thesis using h(2,3,4,6) by blast
      next
        case False
        have b: "\<bar>d0\<bar> \<le> mv' \<and> (\<forall>x \<in> set rest. \<forall>d. divergence (snd x) = Some d \<longrightarrow> \<bar>d\<bar> \<le> mv')"
          using max_divergence_bounds [OF m] .
        then have eq: "\<bar>d0\<bar> = mv'" using False by simp
        have "mp' = Some p0" using max_divergence_same [OF m] False by simp
        moreover have "(p0, entry) # rest = [] @ (p0, entry) # rest" by simp
        ultimately show ?thesis using Some eq b by fastforce
      qed
    next
      case False
      then have m: "max_divergence rest (mp, mv) = (mp', mv')" using 2(4) Some by simp
      from 2(3)[OF Some False m 2(5)] obtain pre p e post d where
        h: "rest = pre @ (p, e) # post" "mp' = Some p" "divergence e = Some d" "\<bar>d\<bar> = mv'"
           "\<forall>y \<in> set pre. \<forall>d'. divergence (snd y) = Some d' \<longrightarrow> \<bar>d'\<bar> < mv'"
           "\<forall>y \<in> set post. \<forall>d'. divergence (snd y) = Some d' \<longrightarrow> \<bar>d'\<bar> \<le> mv'"
        by blast
      have "(p0, entry) # rest = ((p0, entry) # pre) @ (p, e) # post" using h(1) by simp
      moreover have "\<forall>y \<in> set ((p0, entry) # pre). \<forall>d'. divergence (snd y) = Some d' \<longrightarrow> \<bar>d'\<bar> < mv'"
        using h(5) Some False 2(5) by auto
      ultimately show ?thesis using h(2,3,4,6) by blast
    qed
  qed
qed

lemma trade_direction_rule:
  "d \<noteq> 0 \<Longrightarrow>
   (trade_direction (Some c) (Some d) = Sell \<longleftrightarrow> (c > 0 \<and> d > 0) \<or> (c \<le> 0 \<and> d < 0))"
  by (auto simp: trade_direction_def is_positive_def)

lemma file_path_examples:
  "file_path ''EUR/USD'' = ''EUR_USD.json''"
  "file_path ''GBP/USD'' = ''GBP_USD.json''"
  by (simp_all add: file_path_def)

lemma load_local_examples:
  "load_local_data (pair_files eur gbp) ''EUR/USD'' = eur"
  "load_local_data (pair_files eur gbp) ''GBP/USD'' = gbp"
  by (simp_all add: load_local_data_def pair_files_def file_path_examples)

lemma load_fresh:
  "load_local_data files cp \<noteq> [] \<Longrightarrow> \<not> need_update (load_local_data files cp) today \<Longrightarrow>
   load_historical_data svc today files cp s e = (filter_range s e (load_local_data files cp), files)"
  by (simp add: load_historical_data_def Let_def)

lemma fresh_examples:
  "\<not> need_update [(98, 1), (99, 3)] 100"
  "\<not> need_update [(98, 1), (99, 2)] 100"
  "\<not> need_update [(99, 1)] 100"
  "\<not> need_update [(100, 2)] 100"
  by (simp_all add: need_update_def dates_def)

lemma pearson_example: "pearson [(1, 1), (3, 3)] = Some 1"
  by (simp add: pearson_def mean_def Let_def power2_eq_square)

lemma rolling_example: "rolling_corr 2 [(1, 1), (3, 3)] = [None, Some 1]"
  by (simp add: rolling_corr_def pearson_example upt_rec)

lemma rolling_short: "rolling_corr 30 [(1, 1), (2, 2)] = [None, None]"
  by (simp add: rolling_corr_def upt_rec)

lemma example_strategy_fields:
  "primary_pair (example_strategy w t) = ''EUR/USD''"
  "secondary_pairs (example_strategy w t) = [''GBP/USD'']"
  "correlation_window (example_strategy w t) = w"
  "divergence_threshold (example_strategy w t) = t"
  "strategy_trade_amount (example_strategy w t) = 1000"
  by (simp_all add: example_strategy_def CorrelationStrategy_def)

lemma snapshot_examples:
  "eur_gbp_snapshot e g ''EUR/USD'' = Some \<lparr>rate = e, timestamp = 0\<rparr>"
  "eur_gbp_snapshot e g ''GBP/USD'' = Some \<lparr>rate = g, timestamp = 0\<rparr>"
  by (simp_all add: eur_gbp_snapshot_def)

lemma load_example:
  assumes "cp = ''EUR/USD'' \<or> cp = ''GBP/USD''"
    and "eur \<noteq> []" "gbp \<noteq> []" "\<not> need_update eur 100" "\<not> need_update gbp 100"
  shows "load_historical_data svc 100 (pair_files eur gbp) cp s e =
           (filter_range s e (load_local_data (pair_files eur gbp) cp), pair_files eur gbp)"
  using assms by (intro load_fresh) (auto simp: load_local_examples)

lemma calculate_sell_example:
  "calculate_divergence no_history 100 (example_strategy 2 t) (eur_gbp_snapshot 3 1)
     (pair_files [(98, 1), (99, 3)] [(98, 1), (99, 3)])
   = Inr ([(''GBP/USD'', \<lparr>correlation = Some 1, primary_change = 2, secondary_change = 0,
                            divergence = Some 2\<rparr>)],
          (example_strategy 2 t)\<lparr>historical_correlations := [''GBP/USD'' \<mapsto> Some 1]\<rparr>,
          pair_files [(98, 1), (99, 3)] [(98, 1), (99, 3)])"
  by (simp add: calculate_divergence_def secondary_divergence_def get_correlation_def Let_def
        example_strategy_fields load_example fresh_examples load_local_examples filter_range_def
        aligned_rates_def common_dates_def restricted_index_def rates_at_def dates_def Let_def rolling_example latest_value_def prev_close_def
        relative_change_def divergence_of_def snapshot_examples example_strategy_def CorrelationStrategy_def)

lemma calculate_zero_example:
  "calculate_divergence no_history 100 (example_strategy 30 (- 1)) (eur_gbp_snapshot 1 2)
     (pair_files [(99, 1)] [(100, 2)])
   = Inr ([(''GBP/USD'', \<lparr>correlation = Some 0, primary_change = 0, secondary_change = 0,
                            divergence = Some 0\<rparr>)],
          (example_strategy 30 (- 1))\<lparr>historical_correlations := [''GBP/USD'' \<mapsto> Some 0]\<rparr>,
          pair_files [(99, 1)] [(100, 2)])"
  by (simp add: calculate_divergence_def secondary_divergence_def get_correlation_def Let_def
        example_strategy_fields load_example fresh_examples load_local_examples filter_range_def
        aligned_rates_def common_dates_def restricted_index_def rates_at_def dates_def Let_def rolling_corr_def latest_value_def prev_close_def
        relative_change_def divergence_of_def snapshot_examples example_strategy_def CorrelationStrategy_def)

lemma correlation_sell_example:
  "get_correlation no_history 100 (pair_files [(98, 1), (99, 3)] [(98, 1), (99, 3)])
     ''EUR/USD'' ''GBP/USD'' 2 (Some 96) (Some 100)
   = ([None, Some 1], pair_files [(98, 1), (99, 3)] [(98, 1), (99, 3)])"
  by (simp add: get_correlation_def load_example fresh_examples load_local_examples filter_range_def
        aligned_rates_def common_dates_def restricted_index_def rates_at_def dates_def Let_def rolling_example)

lemma correlation_short_example:
  "get_correlation no_history 100 (pair_files [(98, 1), (99, 2)] [(98, 1), (99, 2)])
     ''EUR/USD'' ''GBP/USD'' 30 (Some 40) (Some 100)
   = ([None, None], pair_files [(98, 1), (99, 2)] [(98, 1), (99, 2)])"
  by (simp add: get_correlation_def load_example fresh_examples load_local_examples filter_range_def
        aligned_rates_def common_dates_def restricted_index_def rates_at_def dates_def Let_def rolling_short)

text \<open>
  The sign rule of \<open>make_decision\<close>.  The primary and every secondary pair are in the
  snapshot, and \<open>_calculate_divergence\<close> has returned its entries.  When some entry has
  a divergence \<open>d\<close> with \<open>\<bar>d\<bar>\<close> above the threshold and not zero, the decision is a
  trade on the primary pair, at its current rate, for the first entry (in the order of
  the dictionary) whose \<open>\<bar>d\<bar>\<close> is maximal, with \<open>c\<close> its correlation: a sell if and
  only if \<open>c > 0\<close> and \<open>d > 0\<close>, or \<open>c \<le> 0\<close> and \<open>d < 0\<close>, and a buy otherwise.
  When every entry has \<open>\<bar>d\<bar>\<close> at most the threshold, the decision is no-trade.
\<close>

theorem divergence_sign_rule:
  assumes "md (primary_pair self) = Some q"
    and "list_all (\<lambda>p. md p \<noteq> None) (secondary_pairs self)"
    and "calculate_divergence svc today self md files = Inr (dd, self', files')"
  shows
   "((\<exists>x \<in> set dd. \<exists>d. divergence (snd x) = Some d \<and> \<bar>d\<bar> > divergence_threshold self \<and> d \<noteq> 0) \<longrightarrow>
       (\<exists>pre p e post d c act.
           dd = pre @ (p, e) # post \<and>
           divergence e = Some d \<and> correlation e = Some c \<and>
           (\<forall>y \<in> set pre. \<forall>d'. divergence (snd y) = Some d' \<longrightarrow> \<bar>d'\<bar> < \<bar>d\<bar>) \<and>
           (\<forall>y \<in> set post. \<forall>d'. divergence (snd y) = Some d' \<longrightarrow> \<bar>d'\<bar> \<le> \<bar>d\<bar>) \<and>
           correlation_make_decision svc today self md files =
             Inr (Trade act (primary_pair self) (strategy_trade_amount self) (rate q), self', files') \<and>
           (act = Sell \<longleftrightarrow> (c > 0 \<and> d > 0) \<or> (c \<le> 0 \<and> d < 0)) \<and>
           (act \<noteq> Sell \<longrightarrow> act = Buy)))
    \<and> ((\<forall>x \<in> set dd. \<exists>d. divergence (snd x) = Some d \<and> \<bar>d\<bar> \<le> divergence_threshold self) \<longrightarrow>
         correlation_make_decision svc today self md files = Inr (NoTrade, self', files'))"
proof (intro conjI impI)
  obtain mp mv where m: "max_divergence dd (None, 0) = (mp, mv)"
    by (cases "max_divergence dd (None, 0)")
  note inv = calculate_divergence_entries [OF assms(3)]
  note bounds = max_divergence_bounds [OF m]
  {
    assume "\<exists>x \<in> set dd. \<exists>d. divergence (snd x) = Some d \<and> \<bar>d\<bar> > divergence_threshold self \<and> d \<noteq> 0"
    then obtain x0 d0 where x0: "x0 \<in> set dd" "divergence (snd x0) = Some d0"
      "\<bar>d0\<bar> > divergence_threshold self" "d0 \<noteq> 0"
      by blast
    have ne: "dd \<noteq> []" using x0(1) by auto
    have le0: "\<bar>d0\<bar> \<le> mv" using bounds x0 by blast
    then have pos: "0 < mv" and gt: "mv > divergence_threshold self"
      using x0 by auto
    from max_divergence_first [OF m pos] obtain pre p e post d where
      x: "dd = pre @ (p, e) # post" "mp = Some p" "divergence e = Some d" "\<bar>d\<bar> = mv"
         "\<forall>y \<in> set pre. \<forall>d'. divergence (snd y) = Some d' \<longrightarrow> \<bar>d'\<bar> < mv"
         "\<forall>y \<in> set post. \<forall>d'. divergence (snd y) = Some d' \<longrightarrow> \<bar>d'\<bar> \<le> mv"
      by blast
    have mem: "(p, e) \<in> set dd" using x(1) by simp
    have mo: "map_of dd p = Some e"
      using inv mem by simp
    have "divergence e = divergence_of (primary_change e) (secondary_change e) (correlation e)"
      using inv mem by fastforce
    then obtain c where c: "correlation e = Some c"
      using x(3) by (cases "correlation e") (simp_all add: divergence_of_def)
    have dn: "d \<noteq> 0" using x(4) pos by auto
    let ?act = "trade_direction (Some c) (Some d)"
    have dec: "correlation_make_decision svc today self md files =
             Inr (Trade ?act (primary_pair self) (strategy_trade_amount self) (rate q), self', files')"
      using assms ne m gt x(2) x(3) mo c by (simp add: correlation_make_decision_def)
    have rule: "?act = Sell \<longleftrightarrow> (c > 0 \<and> d > 0) \<or> (c \<le> 0 \<and> d < 0)"
      using trade_direction_rule [OF dn] .
    have other: "?act \<noteq> Sell \<longrightarrow> ?act = Buy"
      by (cases ?act) simp_all
    have b1: "\<forall>y \<in> set pre. \<forall>d'. divergence (snd y) = Some d' \<longrightarrow> \<bar>d'\<bar> < \<bar>d\<bar>"
      using x(5) x(4) by simp
    have b2: "\<forall>y \<in> set post. \<forall>d'. divergence (snd y) = Some d' \<longrightarrow> \<bar>d'\<bar> \<le> \<bar>d\<bar>"
      using x(6) x(4) by simp
    show "\<exists>pre p e post d c act.
           dd = pre @ (p, e) # post \<and>
           divergence e = Some d \<and> correlation e = Some c \<and>
           (\<forall>y \<in> set pre. \<forall>d'. divergence (snd y) = Some d' \<longrightarrow> \<bar>d'\<bar> < \<bar>d\<bar>) \<and>
           (\<forall>y \<in> set post. \<forall>d'. divergence (snd y) = Some d' \<longrightarrow> \<bar>d'\<bar> \<le> \<bar>d\<bar>) \<and>
           correlation_make_decision svc today self md files =
             Inr (Trade act (primary_pair self) (strategy_trade_amount self) (rate q), self', files') \<and>
           (act = Sell \<longleftrightarrow> (c > 0 \<and> d > 0) \<or> (c \<le> 0 \<and> d < 0)) \<and>
           (act \<noteq> Sell \<longrightarrow> act = Buy)"
      using x(1) x(3) c b1 b2 dec rule other by blast
  }
  {
    assume all: "\<forall>x \<in> set dd. \<exists>d. divergence (snd x) = Some d \<and> \<bar>d\<bar> \<le> divergence_threshold self"
    show "correlation_make_decision svc today self md files = Inr (NoTrade, self', files')"
    proof (cases "dd = []")
      case True
      then show ?thesis using assms by (simp add: correlation_make_decision_def)
    next
      case False
      have "\<not> mv > divergence_threshold self"
      proof
        assume g: "mv > divergence_threshold self"
        obtain x1 where x1: "x1 \<in> set dd" using False by (cases dd) auto
        then obtain d1 where "divergence (snd x1) = Some d1" "\<bar>d1\<bar> \<le> divergence_threshold self"
          using all by blast
        then have "0 \<le> divergence_threshold self" by simp
        then have "0 < mv" using g by simp
        from max_divergence_first [OF m this] obtain pre p e post d where
          "dd = pre @ (p, e) # post" "divergence e = Some d" "\<bar>d\<bar> = mv" by blast
        then have "(p, e) \<in> set dd" "divergence e = Some d" "\<bar>d\<bar> = mv" by simp_all
        with all g show False by fastforce
      qed
      then show ?thesis using assms False m by (simp add: correlation_make_decision_def)
    qed
  }
qed

theorem divergence_sign_rule_example:
  "correlation_make_decision no_history 100 (example_strategy 2 1.5) (eur_gbp_snapshot 3 1)
     (pair_files [(98, 1), (99, 3)] [(98, 1), (99, 3)])
   = Inr (Trade Sell ''EUR/USD'' 1000 3,
          (example_strategy 2 1.5)\<lparr>historical_correlations := [''GBP/USD'' \<mapsto> Some 1]\<rparr>,
          pair_files [(98, 1), (99, 3)] [(98, 1), (99, 3)])
   \<and> correlation_make_decision no_history 100 (example_strategy 2 3) (eur_gbp_snapshot 3 1)
     (pair_files [(98, 1), (99, 3)] [(98, 1), (99, 3)])
   = Inr (NoTrade,
          (example_strategy 2 3)\<lparr>historical_correlations := [''GBP/USD'' \<mapsto> Some 1]\<rparr>,
          pair_files [(98, 1), (99, 3)] [(98, 1), (99, 3)])"
proof -
  let ?files = "pair_files [(98, 1), (99, 3)] [(98, 1), (99, 3)]"
  let ?md = "eur_gbp_snapshot 3 1"
  have q: "?md (primary_pair (example_strategy 2 t)) = Some \<lparr>rate = 3, timestamp = 0\<rparr>" for t
    by (simp add: example_strategy_fields snapshot_examples)
  have a: "list_all (\<lambda>p. ?md p \<noteq> None) (secondary_pairs (example_strategy 2 t))" for t
    by (simp add: example_strategy_fields snapshot_examples)
  have c: "calculate_divergence no_history 100 (example_strategy 2 t) ?md ?files
        = Inr ([(''GBP/USD'', \<lparr>correlation = Some 1, primary_change = 2, secondary_change = 0,
                            divergence = Some 2\<rparr>)],
          (example_strategy 2 t)\<lparr>historical_correlations := [''GBP/USD'' \<mapsto> Some 1]\<rparr>,
          ?files)" for t
    by (rule calculate_sell_example)
  have 1: "correlation_make_decision no_history 100 (example_strategy 2 1.5) ?md ?files
     = Inr (Trade Sell ''EUR/USD'' 1000 3,
          (example_strategy 2 1.5)\<lparr>historical_correlations := [''GBP/USD'' \<mapsto> Some 1]\<rparr>, ?files)"
    using divergence_sign_rule [OF q [of "1.5"] a [of "1.5"] c [of "1.5"]]
    by (auto simp: example_strategy_fields Cons_eq_append_conv)
  have 2: "correlation_make_decision no_history 100 (example_strategy 2 3) ?md ?files
     = Inr (NoTrade,
          (example_strategy 2 3)\<lparr>historical_correlations := [''GBP/USD'' \<mapsto> Some 1]\<rparr>, ?files)"
    using divergence_sign_rule [OF q [of 3] a [of 3] c [of 3]]
    by (auto simp: example_strategy_fields)
  from 1 2 show ?thesis by simp
qed

text \<open>
  Claim C5: whenever the largest \<open>\<bar>d\<bar>\<close> among the secondaries exceeds the threshold,
  an action on the primary pair is decided by the sign rule (a buy when \<open>d\<close> is zero).
  The code does not decide one in the following evaluation.  The threshold is \<open>-1\<close>,
  the only secondary pair has the divergence 0 (its correlation series is empty, so
  \<open>c = 0\<close>, and the primary rate is unchanged), and the largest \<open>\<bar>d\<bar>\<close>, which is 0,
  exceeds the threshold.  The search for the maximum starts at 0 with a strict
  comparison and selects no pair, and \<open>divergence_data[max_divergence_pair]\<close> raises
  \<open>KeyError\<close>.
\<close>

theorem negative_threshold_raises_key_error:
  "calculate_divergence no_history 100 (example_strategy 30 (- 1)) (eur_gbp_snapshot 1 2)
     (pair_files [(99, 1)] [(100, 2)])
   = Inr ([(''GBP/USD'', \<lparr>correlation = Some 0, primary_change = 0, secondary_change = 0,
                            divergence = Some 0\<rparr>)],
          (example_strategy 30 (- 1))\<lparr>historical_correlations := [''GBP/USD'' \<mapsto> Some 0]\<rparr>,
          pair_files [(99, 1)] [(100, 2)])
   \<and> \<bar>0 :: real\<bar> > divergence_threshold (example_strategy 30 (- 1))
   \<and> correlation_make_decision no_history 100 (example_strategy 30 (- 1)) (eur_gbp_snapshot 1 2)
        (pair_files [(99, 1)] [(100, 2)]) = Inl (Raised KeyError)"
  by (simp add: calculate_zero_example correlation_make_decision_def example_strategy_fields
        snapshot_examples)

text \<open>
  Claim C6, as the code has it.  For a secondary pair whose history is not empty, the
  correlation recorded is the latest value of the rolling correlation series, and 0
  when that series is empty.  A latest value that is undefined stays undefined, and the
  divergence is then undefined too; for a defined \<open>c\<close> the divergence is
  \<open>primary_change - secondary_change * sgn c\<close>, which is \<open>primary_change\<close> when
  \<open>c = 0\<close>.
\<close>

theorem divergence_entry_formula:
  assumes "load_historical_data svc today files sp
             (Some (today - 2 * int (correlation_window self))) (Some today) = (secondary_data, files1)"
    and "secondary_data \<noteq> []"
    and "get_correlation svc today files1 (primary_pair self) sp (correlation_window self)
             (Some (today - 2 * int (correlation_window self))) (Some today) = (correlation_series, files2)"
    and "secondary_divergence svc today md primary_data sp (dd, self, files) = Inr (dd', self', files')"
  shows "\<exists>entry. map_of dd' sp = Some entry \<and>
           correlation entry = (if correlation_series = [] then Some 0 else last correlation_series) \<and>
           historical_correlations self' sp = Some (correlation entry) \<and>
           divergence entry =
             (case correlation entry of
                None \<Rightarrow> None
              | Some c \<Rightarrow> Some (primary_change entry - secondary_change entry * sgn c)) \<and>
           (correlation entry = Some 0 \<longrightarrow> divergence entry = Some (primary_change entry))"
proof -
  let ?c = "latest_value correlation_series"
  from assms obtain pq sq where q: "md (primary_pair self) = Some pq" "md sp = Some sq"
    by (auto simp: secondary_divergence_def Let_def split: option.splits)
  let ?pc = "relative_change (rate pq) (prev_close primary_data)"
  let ?sc = "relative_change (rate sq) (prev_close secondary_data)"
  let ?entry = "\<lparr>correlation = ?c, primary_change = ?pc, secondary_change = ?sc,
                 divergence = divergence_of ?pc ?sc ?c\<rparr>"
  have r: "dd' = AList.update sp ?entry dd"
    and h: "self' = self\<lparr>historical_correlations := (historical_correlations self)(sp \<mapsto> ?c)\<rparr>"
    using assms q by (auto simp: secondary_divergence_def Let_def split: if_splits)
  have 1: "map_of dd' sp = Some ?entry"
    by (simp add: r update_conv')
  have 2: "correlation ?entry = (if correlation_series = [] then Some 0 else last correlation_series)"
    by (simp add: latest_value_def)
  have 3: "historical_correlations self' sp = Some (correlation ?entry)"
    by (simp add: h)
  have 4: "divergence ?entry =
             (case correlation ?entry of
                None \<Rightarrow> None
              | Some c \<Rightarrow> Some (primary_change ?entry - secondary_change ?entry * sgn c))"
    by (simp add: divergence_of_def split: option.splits)
  have 5: "correlation ?entry = Some 0 \<longrightarrow> divergence ?entry = Some (primary_change ?entry)"
    by (simp add: divergence_of_def)
  from 1 2 3 4 5 show ?thesis by blast
qed

theorem divergence_entry_formula_witness:
  "secondary_divergence no_history 100 (eur_gbp_snapshot 3 1) [(98, 1), (99, 3)] ''GBP/USD''
     ([], example_strategy 2 1.5, pair_files [(98, 1), (99, 3)] [(98, 1), (99, 3)])
   = Inr ([(''GBP/USD'', \<lparr>correlation = Some 1, primary_change = 2, secondary_change = 0,
                            divergence = Some 2\<rparr>)],
          (example_strategy 2 1.5)\<lparr>historical_correlations := [''GBP/USD'' \<mapsto> Some 1]\<rparr>,
          pair_files [(98, 1), (99, 3)] [(98, 1), (99, 3)])
   \<and> (\<exists>entry. map_of [(''GBP/USD'', \<lparr>correlation = Some 1, primary_change = 2, secondary_change = 0,
                            divergence = Some 2\<rparr>)] ''GBP/USD'' = Some entry
          \<and> correlation entry = last [None, Some 1]
          \<and> divergence entry = Some (primary_change entry - secondary_change entry * sgn 1))"
proof -
  let ?files = "pair_files [(98, 1), (99, 3)] [(98, 1), (99, 3)]"
  let ?self = "example_strategy 2 1.5"
  let ?dd = "[(''GBP/USD'', \<lparr>correlation = Some 1, primary_change = 2, secondary_change = 0,
                            divergence = Some (2 :: real)\<rparr>)]"
  have l: "load_historical_data no_history 100 ?files ''GBP/USD''
             (Some (100 - 2 * int (correlation_window ?self))) (Some 100) = ([(98, 1), (99, 3)], ?files)"
    by (simp add: example_strategy_fields load_example fresh_examples load_local_examples filter_range_def)
  have n: "[(98 :: int, 1 :: real), (99, 3)] \<noteq> []" by simp
  have g: "get_correlation no_history 100 ?files (primary_pair ?self) ''GBP/USD'' (correlation_window ?self)
             (Some (100 - 2 * int (correlation_window ?self))) (Some 100) = ([None, Some 1], ?files)"
    by (simp add: example_strategy_fields correlation_sell_example)
  have b: "secondary_divergence no_history 100 (eur_gbp_snapshot 3 1) [(98, 1), (99, 3)] ''GBP/USD''
             ([], ?self, ?files)
           = Inr (?dd, ?self\<lparr>historical_correlations := [''GBP/USD'' \<mapsto> Some 1]\<rparr>, ?files)"
    using l g
    by (simp add: secondary_divergence_def Let_def example_strategy_fields latest_value_def
          prev_close_def relative_change_def divergence_of_def snapshot_examples
          example_strategy_def CorrelationStrategy_def)
  from divergence_entry_formula [OF l n g b]
  have "\<exists>entry. map_of ?dd ''GBP/USD'' = Some entry
          \<and> correlation entry = last [None, Some 1]
          \<and> divergence entry = Some (primary_change entry - secondary_change entry * sgn 1)"
    by auto
  with b show ?thesis by blast
qed

text \<open>
  C6 as it is written takes \<open>c\<close> as 0 whenever the latest value is undefined.  With
  two common days and a window of 30 the series is not empty and its latest value is
  NaN: the code records NaN for the correlation and for the divergence, not 0 and the
  primary change of 1.
\<close>

theorem undefined_correlation_is_not_zero_counterexample:
  "get_correlation no_history 100 (pair_files [(98, 1), (99, 2)] [(98, 1), (99, 2)])
     ''EUR/USD'' ''GBP/USD'' 30 (Some 40) (Some 100)
   = ([None, None], pair_files [(98, 1), (99, 2)] [(98, 1), (99, 2)])
   \<and> secondary_divergence no_history 100 (eur_gbp_snapshot 2 2) [(98, 1), (99, 2)] ''GBP/USD''
     ([], example_strategy 30 1.5, pair_files [(98, 1), (99, 2)] [(98, 1), (99, 2)])
   = Inr ([(''GBP/USD'', \<lparr>correlation = None, primary_change = 1, secondary_change = 1,
                            divergence = None\<rparr>)],
          (example_strategy 30 1.5)\<lparr>historical_correlations := [''GBP/USD'' \<mapsto> None]\<rparr>,
          pair_files [(98, 1), (99, 2)] [(98, 1), (99, 2)])"
  by (simp add: correlation_short_example secondary_divergence_def Let_def example_strategy_fields
        load_example fresh_examples load_local_examples filter_range_def latest_value_def
        prev_close_def relative_change_def divergence_of_def snapshot_examples
        example_strategy_def CorrelationStrategy_def)

end
